theory Spec2Isabelle
  imports Complex_Main "HOL-Library.Char_ord" "HOL-Library.Multiset"
begin

section \<open>Python values and errors\<close>

text \<open>
  The model follows the type annotations of the source. A field or parameter annotated
  \<open>float\<close> is a \<open>real\<close> (Python floats are idealised as real numbers: rounding is
  not modelled), one annotated \<open>int\<close> is an \<open>int\<close>, one annotated \<open>str\<close> is a
  \<open>string\<close>. A value annotated \<open>Any\<close> (the telemetry of \<open>Dict[str, Any]\<close>) is a
  \<open>pyval\<close>, and every operation on it raises where Python raises.
\<close>

datatype py_error = ZeroDivisionError | ValueError | TypeError | AttributeError
  | KeyError | IndexError | OverflowError

text \<open>\<open>x / y\<close> on floats.\<close>

definition py_truediv :: "real \<Rightarrow> real \<Rightarrow> py_error + real" where
  "py_truediv x y = (if y = 0 then Inl ZeroDivisionError else Inr (x / y))"

text \<open>\<open>x % y\<close> on floats: the result has the sign of the divisor.\<close>

definition py_mod :: "real \<Rightarrow> real \<Rightarrow> py_error + real" where
  "py_mod x y = (if y = 0 then Inl ZeroDivisionError else Inr (x - y * of_int \<lfloor>x / y\<rfloor>))"

text \<open>\<open>int(x)\<close> on a float truncates towards zero.\<close>

definition py_int :: "real \<Rightarrow> int" where
  "py_int x = (if 0 \<le> x then \<lfloor>x\<rfloor> else \<lceil>x\<rceil>)"

text \<open>
  \<open>pow(x, y)\<close> on floats with a base \<open>x \<ge> 0\<close> (the only bases \<open>effect_fill\<close>
  passes): \<open>pow(0.0, 0.0)\<close> is \<open>1.0\<close>, and \<open>0.0\<close> to a negative power raises.
\<close>

definition py_pow :: "real \<Rightarrow> real \<Rightarrow> py_error + real" where
  "py_pow x y =
     (if x = 0 then (if y = 0 then Inr 1 else if 0 < y then Inr 0 else Inl ZeroDivisionError)
      else Inr (x powr y))"

section \<open>effects.py\<close>

type_synonym RGB = "real \<times> real \<times> real"

definition HEARTBEAT_FIRST_PULSE_DURATION :: real where
  "HEARTBEAT_FIRST_PULSE_DURATION = 0.15"

definition HEARTBEAT_DIP_DURATION :: real where
  "HEARTBEAT_DIP_DURATION = 0.05"

definition HEARTBEAT_SECOND_PULSE_DURATION :: real where
  "HEARTBEAT_SECOND_PULSE_DURATION = 0.05"

definition HEARTBEAT_FADE_DURATION :: real where
  "HEARTBEAT_FADE_DURATION = 0.10"

definition HEARTBEAT_SECOND_PULSE_INTENSITY :: real where
  "HEARTBEAT_SECOND_PULSE_INTENSITY = 0.5"

record EffectState =
  effect :: string
  color :: RGB
  base_color :: RGB
  start_time :: real
  last_update :: real
  speed :: real
  min_brightness :: real
  max_brightness :: real
  min_sparkle :: int
  max_sparkle :: int
  start_color :: RGB
  end_color :: RGB
  gradient_curve :: real
  temp_source :: string
  direction :: string

text \<open>The dataclass's defaults.\<close>

definition EffectState_default :: EffectState where
  "EffectState_default =
     \<lparr>effect = ''off'', color = (0, 0, 0), base_color = (0, 0, 0), start_time = 0,
      last_update = 0, speed = 1, min_brightness = 0.2, max_brightness = 1,
      min_sparkle = 1, max_sparkle = 6, start_color = (0.5, 0.5, 0.5),
      end_color = (0, 1, 0), gradient_curve = 1, temp_source = ''extruder'',
      direction = ''standard''\<rparr>"

text \<open>\<open>(r * brightness, g * brightness, b * brightness)\<close>, the last line of pulse and heartbeat.\<close>

definition scale_rgb :: "RGB \<Rightarrow> real \<Rightarrow> RGB" where
  "scale_rgb c brightness = (case c of (r, g, b) \<Rightarrow> (r * brightness, g * brightness, b * brightness))"

definition effect_pulse :: "EffectState \<Rightarrow> real \<Rightarrow> RGB" where
  "effect_pulse state now =
     (let elapsed = now - start_time state;
          phase = (sin (elapsed * speed state * 2 * pi) + 1) / 2;
          brightness = min_brightness state + phase * (max_brightness state - min_brightness state)
      in scale_rgb (base_color state) brightness)"

text \<open>The brightness \<open>effect_heartbeat\<close> computes from the phase: its \<open>if\<close>/\<open>elif\<close> chain.\<close>

definition heartbeat_brightness :: "EffectState \<Rightarrow> real \<Rightarrow> real" where
  "heartbeat_brightness state phase =
     (if phase < HEARTBEAT_FIRST_PULSE_DURATION then
        (let t = phase / HEARTBEAT_FIRST_PULSE_DURATION
         in min_brightness state + t * (max_brightness state - min_brightness state))
      else if phase < HEARTBEAT_FIRST_PULSE_DURATION + HEARTBEAT_DIP_DURATION then
        (let t = (phase - HEARTBEAT_FIRST_PULSE_DURATION) / HEARTBEAT_DIP_DURATION
         in max_brightness state
            - t * (max_brightness state - min_brightness state) * HEARTBEAT_SECOND_PULSE_INTENSITY)
      else if phase < HEARTBEAT_FIRST_PULSE_DURATION + HEARTBEAT_DIP_DURATION
                      + HEARTBEAT_SECOND_PULSE_DURATION then
        (let t = (phase - HEARTBEAT_FIRST_PULSE_DURATION - HEARTBEAT_DIP_DURATION)
                   / HEARTBEAT_SECOND_PULSE_DURATION
         in min_brightness state + HEARTBEAT_SECOND_PULSE_INTENSITY
            + t * (max_brightness state - min_brightness state) * HEARTBEAT_SECOND_PULSE_INTENSITY)
      else if phase < HEARTBEAT_FIRST_PULSE_DURATION + HEARTBEAT_DIP_DURATION
                      + HEARTBEAT_SECOND_PULSE_DURATION + HEARTBEAT_FADE_DURATION then
        (let t = (phase - HEARTBEAT_FIRST_PULSE_DURATION - HEARTBEAT_DIP_DURATION
                    - HEARTBEAT_SECOND_PULSE_DURATION) / HEARTBEAT_FADE_DURATION
         in max_brightness state - t * (max_brightness state - min_brightness state))
      else min_brightness state)"

text \<open>The phase of the cycle, in \<open>[0, 1)\<close>: \<open>(elapsed % cycle_time) / cycle_time\<close>.\<close>

definition heartbeat_phase :: "EffectState \<Rightarrow> real \<Rightarrow> py_error + real" where
  "heartbeat_phase state now =
     (let elapsed = now - start_time state in
      case py_truediv 1 (speed state) of
        Inl e \<Rightarrow> Inl e
      | Inr cycle_time \<Rightarrow>
          (case py_mod elapsed cycle_time of
             Inl e \<Rightarrow> Inl e
           | Inr m \<Rightarrow> py_truediv m cycle_time))"

definition effect_heartbeat :: "EffectState \<Rightarrow> real \<Rightarrow> py_error + RGB" where
  "effect_heartbeat state now =
     (case heartbeat_phase state now of
        Inl e \<Rightarrow> Inl e
      | Inr phase \<Rightarrow> Inr (scale_rgb (base_color state) (heartbeat_brightness state phase)))"

subsection \<open>Disco\<close>

text \<open>
  The \<open>random\<close> module of the standard library is not part of the repository: it is a
  parameter. \<open>'g\<close> is the state of the module's generator; each operation returns its
  result with the next state. \<open>random_seed\<close> is \<open>random.seed(n)\<close>, which replaces
  the state; \<open>random_randint\<close> is \<open>random.randint(a, b)\<close> on a non-empty range;
  \<open>random_shuffle\<close> is \<open>random.shuffle(xs)\<close>, returning the list it leaves in
  \<open>xs\<close>; \<open>random_random\<close> is \<open>random.random()\<close>.
\<close>

record 'g Random =
  random_seed :: "int \<Rightarrow> 'g"
  random_randint :: "int \<Rightarrow> int \<Rightarrow> 'g \<Rightarrow> int \<times> 'g"
  random_shuffle :: "int list \<Rightarrow> 'g \<Rightarrow> int list \<times> 'g"
  random_random :: "'g \<Rightarrow> real \<times> 'g"

text \<open>\<open>random.randint(a, b)\<close> raises \<open>ValueError\<close> on an empty range.\<close>

definition py_randint :: "'g Random \<Rightarrow> int \<Rightarrow> int \<Rightarrow> 'g \<Rightarrow> py_error + (int \<times> 'g)" where
  "py_randint R a b g = (if b < a then Inl ValueError else Inr (random_randint R a b g))"

text \<open>\<open>list(range(n))\<close>: empty when \<open>n \<le> 0\<close>.\<close>

definition py_range :: "int \<Rightarrow> int list" where
  "py_range n = map int [0..<nat n]"

text \<open>\<open>xs[:k]\<close>: a negative \<open>k\<close> counts from the end.\<close>

definition py_slice_to :: "'a list \<Rightarrow> int \<Rightarrow> 'a list" where
  "py_slice_to xs k = (if 0 \<le> k then take (nat k) xs else take (length xs - nat (- k)) xs)"

text \<open>
  The colour of a lit LED from its hue: HSV to RGB at saturation 1 and value
  \<open>max_brightness\<close>. \<open>h % 2\<close> has the non-zero divisor 2 and cannot raise.
\<close>

definition disco_color :: "EffectState \<Rightarrow> real \<Rightarrow> RGB" where
  "disco_color state hue =
     (let h = hue * 6;
          c = max_brightness state;
          x = c * (1 - \<bar>(h - 2 * of_int \<lfloor>h / 2\<rfloor>) - 1\<bar>)
      in if h < 1 then (c, x, 0)
         else if h < 2 then (x, c, 0)
         else if h < 3 then (0, c, x)
         else if h < 4 then (0, x, c)
         else if h < 5 then (x, 0, c)
         else (c, 0, x))"

text \<open>The loop \<open>for i in range(led_count)\<close>, drawing a hue for each lit index.\<close>

fun disco_colors :: "'g Random \<Rightarrow> EffectState \<Rightarrow> int set \<Rightarrow> int list \<Rightarrow> 'g \<Rightarrow> RGB option list" where
  "disco_colors R state lit_indices [] g = []"
| "disco_colors R state lit_indices (i # rest) g =
     (if i \<in> lit_indices then
        (case random_random R g of
           (hue, g') \<Rightarrow> Some (disco_color state hue) # disco_colors R state lit_indices rest g')
      else None # disco_colors R state lit_indices rest g)"

definition effect_disco ::
  "'g Random \<Rightarrow> EffectState \<Rightarrow> real \<Rightarrow> int \<Rightarrow> py_error + (RGB option list \<times> bool)" where
  "effect_disco R state now led_count =
     (let time_since_update = now - last_update state in
      case py_truediv 1 (speed state) of
        Inl e \<Rightarrow> Inl e
      | Inr interval \<Rightarrow>
          if time_since_update < interval then Inr ([], False)
          else
            (let g0 = random_seed R (py_int (now * 1000000));
                 min_lit = min (min_sparkle state) led_count;
                 max_lit = min (max_sparkle state) led_count
             in case py_randint R min_lit max_lit g0 of
                  Inl e \<Rightarrow> Inl e
                | Inr (num_lit, g1) \<Rightarrow>
                    (case random_shuffle R (py_range led_count) g1 of
                       (all_indices, g2) \<Rightarrow>
                         (let lit_indices = set (py_slice_to all_indices num_lit)
                          in Inr (disco_colors R state lit_indices (py_range led_count) g2, True)))))"

text \<open>
  The call as it acts on the store. The \<open>EffectState\<close> is an object passed by
  reference and the \<open>random\<close> module keeps one global generator: the store holds
  both. Each statement of the body of \<open>effect_disco\<close> is a step on the store: a read
  of \<open>state.x\<close> reads the object in the current store, a call to \<open>random\<close> replaces
  the generator. An assignment to an attribute of \<open>state\<close> would be an update of
  \<open>state_object\<close>.
\<close>

record 'g disco_store =
  state_object :: EffectState
  generator :: 'g

fun disco_loop ::
  "'g Random \<Rightarrow> int set \<Rightarrow> int list \<Rightarrow> 'g disco_store \<Rightarrow> RGB option list \<times> 'g disco_store" where
  "disco_loop R lit_indices [] w = ([], w)"
| "disco_loop R lit_indices (i # rest) w =
     (if i \<in> lit_indices then
        (case random_random R (generator w) of
           (hue, g') \<Rightarrow>
             (let w' = w\<lparr>generator := g'\<rparr>;
                  c = disco_color (state_object w') hue
              in case disco_loop R lit_indices rest w' of
                   (colors, w'') \<Rightarrow> (Some c # colors, w'')))
      else
        (case disco_loop R lit_indices rest w of
           (colors, w') \<Rightarrow> (None # colors, w')))"

definition effect_disco_run ::
  "'g Random \<Rightarrow> real \<Rightarrow> int \<Rightarrow> 'g disco_store
     \<Rightarrow> (py_error + (RGB option list \<times> bool)) \<times> 'g disco_store" where
  "effect_disco_run R now led_count w =
     (let time_since_update = now - last_update (state_object w) in
      case py_truediv 1 (speed (state_object w)) of
        Inl e \<Rightarrow> (Inl e, w)
      | Inr interval \<Rightarrow>
          if time_since_update < interval then (Inr ([], False), w)
          else
            (let w1 = w\<lparr>generator := random_seed R (py_int (now * 1000000))\<rparr>;
                 min_lit = min (min_sparkle (state_object w1)) led_count;
                 max_lit = min (max_sparkle (state_object w1)) led_count
             in case py_randint R min_lit max_lit (generator w1) of
                  Inl e \<Rightarrow> (Inl e, w1)
                | Inr (num_lit, g1) \<Rightarrow>
                    (let w2 = w1\<lparr>generator := g1\<rparr> in
                     case random_shuffle R (py_range led_count) (generator w2) of
                       (all_indices, g2) \<Rightarrow>
                         (let w3 = w2\<lparr>generator := g2\<rparr>;
                              lit_indices = set (py_slice_to all_indices num_lit)
                          in case disco_loop R lit_indices (py_range led_count) w3 of
                               (colors, w4) \<Rightarrow> (Inr (colors, True), w4)))))"

subsection \<open>Gradient fill\<close>

definition lerp_color :: "RGB \<Rightarrow> RGB \<Rightarrow> real \<Rightarrow> RGB" where
  "lerp_color color1 color2 t =
     (case color1 of (r1, g1, b1) \<Rightarrow>
      case color2 of (r2, g2, b2) \<Rightarrow>
        (r1 + (r2 - r1) * t, g1 + (g2 - g1) * t, b1 + (b2 - b1) * t))"

text \<open>\<open>gradient_t\<close>: \<open>1.0\<close> on a strip of at most one LED, else \<open>i / (led_count - 1)\<close>.\<close>

definition gradient_t :: "int \<Rightarrow> int \<Rightarrow> real" where
  "gradient_t i led_count = (if led_count \<le> 1 then 1 else of_int i / of_int (led_count - 1))"

text \<open>
  The loop \<open>for i in range(led_count)\<close> of \<open>effect_fill\<close>; \<open>pow\<close> may raise, which
  ends the loop.
\<close>

fun fill_colors :: "EffectState \<Rightarrow> real \<Rightarrow> int \<Rightarrow> int list \<Rightarrow> py_error + RGB option list" where
  "fill_colors state lit_count led_count [] = Inr []"
| "fill_colors state lit_count led_count (i # rest) =
     (let led_pos = i + 1 in
      if of_int led_pos \<le> lit_count then
        (case py_pow (gradient_t i led_count) (gradient_curve state) of
           Inl e \<Rightarrow> Inl e
         | Inr curved_t \<Rightarrow>
             (let color = lerp_color (start_color state) (end_color state) curved_t
              in case fill_colors state lit_count led_count rest of
                   Inl e \<Rightarrow> Inl e
                 | Inr colors \<Rightarrow> Inr (Some color # colors)))
      else if of_int (led_pos - 1) < lit_count then
        (let partial = lit_count - of_int (led_pos - 1) in
         case py_pow (gradient_t i led_count) (gradient_curve state) of
           Inl e \<Rightarrow> Inl e
         | Inr curved_t \<Rightarrow>
             (let base = lerp_color (start_color state) (end_color state) curved_t;
                  color = scale_rgb base partial
              in case fill_colors state lit_count led_count rest of
                   Inl e \<Rightarrow> Inl e
                 | Inr colors \<Rightarrow> Inr (Some color # colors)))
      else
        (case fill_colors state lit_count led_count rest of
           Inl e \<Rightarrow> Inl e
         | Inr colors \<Rightarrow> Inr (None # colors)))"

text \<open>
  \<open>hasattr(state, 'direction')\<close> holds of every \<open>EffectState\<close>, so the last test is
  \<open>state.direction == 'reverse'\<close>.
\<close>

definition effect_fill :: "EffectState \<Rightarrow> real \<Rightarrow> int \<Rightarrow> py_error + RGB option list" where
  "effect_fill state fill_percent led_count =
     (let fill_percent' = max 0 (min 1 fill_percent);
          lit_count = fill_percent' * of_int led_count
      in case fill_colors state lit_count led_count (py_range led_count) of
           Inl e \<Rightarrow> Inl e
         | Inr colors \<Rightarrow> if direction state = ''reverse'' then Inr (rev colors) else Inr colors)"

definition effect_thermal ::
  "EffectState \<Rightarrow> real \<Rightarrow> real \<Rightarrow> real \<Rightarrow> int \<Rightarrow> py_error + RGB option list" where
  "effect_thermal state current_temp target_temp temp_floor led_count =
     (if target_temp \<le> 0 then Inr (replicate (nat led_count) (Some (start_color state)))
      else if target_temp \<le> temp_floor then Inr (replicate (nat led_count) (Some (start_color state)))
      else
        (let temp_range = target_temp - temp_floor;
             temp_above_floor = current_temp - temp_floor
         in case py_truediv temp_above_floor temp_range of
              Inl e \<Rightarrow> Inl e
            | Inr fill_percent \<Rightarrow> effect_fill state fill_percent led_count))"

definition effect_progress :: "EffectState \<Rightarrow> real \<Rightarrow> int \<Rightarrow> py_error + RGB option list" where
  "effect_progress state progress led_count = effect_fill state progress led_count"

section \<open>Telemetry values\<close>

text \<open>
  A telemetry snapshot is JSON decoded by Python: \<open>None\<close>, a bool, an int, a float, a
  str, a list, or a dict with string keys. A dict is an association list read with
  \<open>map_of\<close>.
\<close>

datatype pyval = PNone | PBool bool | PInt int | PFloat real | PStr string
  | PList "pyval list" | PDict "(string \<times> pyval) list"

type_synonym pydict = "(string \<times> pyval) list"

text \<open>Truth value of an object, as \<open>not x\<close> and \<open>x or y\<close> test it.\<close>

fun py_truthy :: "pyval \<Rightarrow> bool" where
  "py_truthy PNone = False"
| "py_truthy (PBool b) = b"
| "py_truthy (PInt i) = (i \<noteq> 0)"
| "py_truthy (PFloat x) = (x \<noteq> 0)"
| "py_truthy (PStr s) = (s \<noteq> [])"
| "py_truthy (PList xs) = (xs \<noteq> [])"
| "py_truthy (PDict d) = (d \<noteq> [])"

text \<open>\<open>x or 0.0\<close>.\<close>

definition py_or_zero :: "pyval \<Rightarrow> pyval" where
  "py_or_zero x = (if py_truthy x then x else PFloat 0)"

text \<open>Whether \<open>p\<close> occurs in \<open>t\<close> as a substring.\<close>

fun is_substring :: "string \<Rightarrow> string \<Rightarrow> bool" where
  "is_substring p [] = (p = [])"
| "is_substring p (c # cs) = (take (length p) (c # cs) = p \<or> is_substring p cs)"

text \<open>
  \<open>key in obj\<close> for a string \<open>key\<close>: a key of a dict, an element of a list, a
  substring of a str; anything else is not iterable.
\<close>

fun py_contains :: "string \<Rightarrow> pyval \<Rightarrow> py_error + bool" where
  "py_contains k (PDict d) = Inr (map_of d k \<noteq> None)"
| "py_contains k (PList xs) = Inr (PStr k \<in> set xs)"
| "py_contains k (PStr t) = Inr (is_substring k t)"
| "py_contains k v = Inl TypeError"

text \<open>\<open>obj[key]\<close> for a string \<open>key\<close>: only a dict takes one.\<close>

fun py_getitem :: "pyval \<Rightarrow> string \<Rightarrow> py_error + pyval" where
  "py_getitem (PDict d) k = (case map_of d k of None \<Rightarrow> Inl KeyError | Some v \<Rightarrow> Inr v)"
| "py_getitem v k = Inl TypeError"

text \<open>\<open>obj.get(key, default)\<close>: a method of dicts only.\<close>

fun py_get :: "pyval \<Rightarrow> string \<Rightarrow> pyval \<Rightarrow> py_error + pyval" where
  "py_get (PDict d) k dflt = Inr (case map_of d k of None \<Rightarrow> dflt | Some v \<Rightarrow> v)"
| "py_get v k dflt = Inl AttributeError"

text \<open>\<open>len(obj)\<close>.\<close>

fun py_len :: "pyval \<Rightarrow> py_error + nat" where
  "py_len (PDict d) = Inr (length (remdups (map fst d)))"
| "py_len (PList xs) = Inr (length xs)"
| "py_len (PStr t) = Inr (length t)"
| "py_len v = Inl TypeError"

text \<open>
  \<open>obj[i]\<close> for an index \<open>i \<ge> 0\<close>: an element of a list, a one-character str of a
  str; a dict has string keys only, so it raises \<open>KeyError\<close>.
\<close>

fun py_index :: "pyval \<Rightarrow> nat \<Rightarrow> py_error + pyval" where
  "py_index (PList xs) i = (if i < length xs then Inr (xs ! i) else Inl IndexError)"
| "py_index (PStr t) i = (if i < length t then Inr (PStr [t ! i]) else Inl IndexError)"
| "py_index (PDict d) i = Inl KeyError"
| "py_index v i = Inl TypeError"

text \<open>The numeric value of an int, a float or a bool (\<open>bool\<close> is a subclass of \<open>int\<close>).\<close>

fun py_num :: "pyval \<Rightarrow> real option" where
  "py_num (PInt i) = Some (of_int i)"
| "py_num (PFloat x) = Some x"
| "py_num (PBool b) = Some (if b then 1 else 0)"
| "py_num v = None"

text \<open>\<open>x > 0\<close>: ordering a non-number against an int raises \<open>TypeError\<close>.\<close>

definition py_gt_zero :: "pyval \<Rightarrow> py_error + bool" where
  "py_gt_zero x = (case py_num x of None \<Rightarrow> Inl TypeError | Some r \<Rightarrow> Inr (0 < r))"

text \<open>
  \<open>x - y\<close> as the detectors use it, on timestamps. Two ints (a bool counts as an int)
  subtract exactly. Next to a float, an int operand is first converted to a float, which
  raises \<open>OverflowError\<close> when the int is beyond the float range (it would round to
  \<open>2 ** 1024\<close> or more); the rounding of the conversion is not modelled, as for all
  float arithmetic. A non-number raises \<open>TypeError\<close>.
\<close>

fun py_int_value :: "pyval \<Rightarrow> int option" where
  "py_int_value (PInt i) = Some i"
| "py_int_value (PBool b) = Some (if b then 1 else 0)"
| "py_int_value v = None"

definition py_float_operand :: "pyval \<Rightarrow> py_error + real" where
  "py_float_operand v =
     (case v of
        PFloat x \<Rightarrow> Inr x
      | _ \<Rightarrow>
          (case py_int_value v of
             None \<Rightarrow> Inl TypeError
           | Some i \<Rightarrow>
               if 2 ^ 1024 - 2 ^ 970 \<le> \<bar>i\<bar> then Inl OverflowError else Inr (of_int i)))"

definition py_sub :: "pyval \<Rightarrow> pyval \<Rightarrow> py_error + real" where
  "py_sub x y =
     (case py_num x of
        None \<Rightarrow> Inl TypeError
      | Some a \<Rightarrow>
          (case py_num y of
             None \<Rightarrow> Inl TypeError
           | Some b \<Rightarrow>
               (case (py_int_value x, py_int_value y) of
                  (Some i, Some j) \<Rightarrow> Inr (of_int (i - j))
                | _ \<Rightarrow>
                    (case py_float_operand x of
                       Inl e \<Rightarrow> Inl e
                     | Inr fx \<Rightarrow>
                         (case py_float_operand y of
                            Inl e \<Rightarrow> Inl e
                          | Inr fy \<Rightarrow> Inr (fx - fy))))))"

text \<open>
  \<open>x >= y\<close> for a number \<open>x\<close>: Python compares an int with a float exactly, without
  converting.
\<close>

definition py_ge :: "real \<Rightarrow> pyval \<Rightarrow> py_error + bool" where
  "py_ge a y = (case py_num y of None \<Rightarrow> Inl TypeError | Some b \<Rightarrow> Inr (b \<le> a))"

text \<open>\<open>str.lower()\<close> on ASCII; anything but a str has no such method.\<close>

definition lower_char :: "char \<Rightarrow> char" where
  "lower_char c =
     (if CHR ''A'' \<le> c \<and> c \<le> CHR ''Z'' then char_of (of_char c + (32::nat)) else c)"

fun py_lower :: "pyval \<Rightarrow> py_error + string" where
  "py_lower (PStr t) = Inr (map lower_char t)"
| "py_lower v = Inl AttributeError"

section \<open>state.py\<close>

datatype PrinterEvent = IDLE | HEATING | PRINTING | COOLDOWN | ERROR | BORED | SLEEP

text \<open>
  The dataclass \<open>PrinterState\<close> (its field \<open>print_state\<close> is written
  \<open>print_state'\<close>: the plain name is reserved). \<open>'s\<close> is the type of the fields annotated \<open>str\<close>
  and \<open>'n\<close> of those annotated \<open>float\<close>: the detector reads them as \<open>string\<close>
  and \<open>real\<close>; \<open>update_from_status\<close> stores whatever the telemetry holds, a
  \<open>pyval\<close>.
\<close>

record ('s, 'n) PrinterState =
  klipper_state :: 's
  print_state' :: 's
  progress :: 'n
  filename :: 's
  bed_temp :: 'n
  bed_target :: 'n
  extruder_temp :: 'n
  extruder_target :: 'n
  position_x :: 'n
  position_y :: 'n
  position_z :: 'n
  idle_state :: 's

definition PrinterState_default :: "(pyval, pyval) PrinterState" where
  "PrinterState_default =
     \<lparr>klipper_state = PStr ''startup'', print_state' = PStr ''standby'', progress = PFloat 0,
      filename = PStr [], bed_temp = PFloat 0, bed_target = PFloat 0,
      extruder_temp = PFloat 0, extruder_target = PFloat 0, position_x = PFloat 0,
      position_y = PFloat 0, position_z = PFloat 0, idle_state = PStr ''Ready''\<rparr>"

subsection \<open>update_from_status\<close>

text \<open>\<open>if key in grp: ... grp[key]\<close>: the value to store, if any.\<close>

definition read_item :: "pyval \<Rightarrow> string \<Rightarrow> py_error + pyval option" where
  "read_item grp k =
     (case py_contains k grp of
        Inl e \<Rightarrow> Inl e
      | Inr False \<Rightarrow> Inr None
      | Inr True \<Rightarrow> (case py_getitem grp k of Inl e \<Rightarrow> Inl e | Inr v \<Rightarrow> Inr (Some v)))"

text \<open>\<open>if key in grp: ... grp.get(key, default)\<close>.\<close>

definition read_get :: "pyval \<Rightarrow> string \<Rightarrow> pyval \<Rightarrow> py_error + pyval option" where
  "read_get grp k dflt =
     (case py_contains k grp of
        Inl e \<Rightarrow> Inl e
      | Inr False \<Rightarrow> Inr None
      | Inr True \<Rightarrow> (case py_get grp k dflt of Inl e \<Rightarrow> Inl e | Inr v \<Rightarrow> Inr (Some v)))"

text \<open>
  One function for each \<open>if "group" in status:\<close> block. Within a block no
  operation raises after an assignment of the block: an assignment is reached only when
  the group is a dict (and, for the position, once \<open>pos[0]\<close> has been read from a
  list or a str of at least three items), and then the rest of the block does not raise.
  So a block either fails and leaves the object as it found it, or runs to its end.
\<close>

definition update_webhooks ::
  "pydict \<Rightarrow> (pyval, pyval) PrinterState \<Rightarrow> py_error + (pyval, pyval) PrinterState" where
  "update_webhooks status self =
     (case map_of status ''webhooks'' of
        None \<Rightarrow> Inr self
      | Some wh \<Rightarrow>
          (case read_item wh ''state'' of
             Inl e \<Rightarrow> Inl e
           | Inr None \<Rightarrow> Inr self
           | Inr (Some v) \<Rightarrow> Inr (self\<lparr>klipper_state := v\<rparr>)))"

definition update_print_stats ::
  "pydict \<Rightarrow> (pyval, pyval) PrinterState \<Rightarrow> py_error + (pyval, pyval) PrinterState" where
  "update_print_stats status self =
     (case map_of status ''print_stats'' of
        None \<Rightarrow> Inr self
      | Some ps \<Rightarrow>
          (case read_item ps ''state'' of
             Inl e \<Rightarrow> Inl e
           | Inr st \<Rightarrow>
               (let self1 = (case st of None \<Rightarrow> self | Some v \<Rightarrow> self\<lparr>print_state' := v\<rparr>)
                in case read_get ps ''filename'' (PStr []) of
                     Inl e \<Rightarrow> Inl e
                   | Inr None \<Rightarrow> Inr self1
                   | Inr (Some v) \<Rightarrow> Inr (self1\<lparr>filename := v\<rparr>))))"

definition update_display_status ::
  "pydict \<Rightarrow> (pyval, pyval) PrinterState \<Rightarrow> py_error + (pyval, pyval) PrinterState" where
  "update_display_status status self =
     (case map_of status ''display_status'' of
        None \<Rightarrow> Inr self
      | Some ds \<Rightarrow>
          (case read_get ds ''progress'' (PFloat 0) of
             Inl e \<Rightarrow> Inl e
           | Inr None \<Rightarrow> Inr self
           | Inr (Some v) \<Rightarrow> Inr (self\<lparr>progress := py_or_zero v\<rparr>)))"

definition update_heater_bed ::
  "pydict \<Rightarrow> (pyval, pyval) PrinterState \<Rightarrow> py_error + (pyval, pyval) PrinterState" where
  "update_heater_bed status self =
     (case map_of status ''heater_bed'' of
        None \<Rightarrow> Inr self
      | Some hb \<Rightarrow>
          (case read_get hb ''temperature'' (PFloat 0) of
             Inl e \<Rightarrow> Inl e
           | Inr tmp \<Rightarrow>
               (let self1 = (case tmp of None \<Rightarrow> self
                             | Some v \<Rightarrow> self\<lparr>bed_temp := py_or_zero v\<rparr>)
                in case read_get hb ''target'' (PFloat 0) of
                     Inl e \<Rightarrow> Inl e
                   | Inr None \<Rightarrow> Inr self1
                   | Inr (Some v) \<Rightarrow> Inr (self1\<lparr>bed_target := py_or_zero v\<rparr>))))"

definition update_extruder ::
  "pydict \<Rightarrow> (pyval, pyval) PrinterState \<Rightarrow> py_error + (pyval, pyval) PrinterState" where
  "update_extruder status self =
     (case map_of status ''extruder'' of
        None \<Rightarrow> Inr self
      | Some ex \<Rightarrow>
          (case read_get ex ''temperature'' (PFloat 0) of
             Inl e \<Rightarrow> Inl e
           | Inr tmp \<Rightarrow>
               (let self1 = (case tmp of None \<Rightarrow> self
                             | Some v \<Rightarrow> self\<lparr>extruder_temp := py_or_zero v\<rparr>)
                in case read_get ex ''target'' (PFloat 0) of
                     Inl e \<Rightarrow> Inl e
                   | Inr None \<Rightarrow> Inr self1
                   | Inr (Some v) \<Rightarrow> Inr (self1\<lparr>extruder_target := py_or_zero v\<rparr>))))"

definition update_toolhead ::
  "pydict \<Rightarrow> (pyval, pyval) PrinterState \<Rightarrow> py_error + (pyval, pyval) PrinterState" where
  "update_toolhead status self =
     (case map_of status ''toolhead'' of
        None \<Rightarrow> Inr self
      | Some th \<Rightarrow>
          (case read_item th ''position'' of
             Inl e \<Rightarrow> Inl e
           | Inr None \<Rightarrow> Inr self
           | Inr (Some pos) \<Rightarrow>
               (case py_len pos of
                  Inl e \<Rightarrow> Inl e
                | Inr n \<Rightarrow>
                    if 3 \<le> n then
                      (case py_index pos 0 of
                         Inl e \<Rightarrow> Inl e
                       | Inr x \<Rightarrow>
                           (case py_index pos 1 of
                              Inl e \<Rightarrow> Inl e
                            | Inr y \<Rightarrow>
                                (case py_index pos 2 of
                                   Inl e \<Rightarrow> Inl e
                                 | Inr z \<Rightarrow>
                                     Inr (self\<lparr>position_x := py_or_zero x,
                                               position_y := py_or_zero y,
                                               position_z := py_or_zero z\<rparr>))))
                    else Inr self)))"

definition update_idle_timeout ::
  "pydict \<Rightarrow> (pyval, pyval) PrinterState \<Rightarrow> py_error + (pyval, pyval) PrinterState" where
  "update_idle_timeout status self =
     (case map_of status ''idle_timeout'' of
        None \<Rightarrow> Inr self
      | Some it \<Rightarrow>
          (case read_item it ''state'' of
             Inl e \<Rightarrow> Inl e
           | Inr None \<Rightarrow> Inr self
           | Inr (Some v) \<Rightarrow> Inr (self\<lparr>idle_state := v\<rparr>)))"

text \<open>
  The blocks run in order on the object. \<open>Inl (e, s)\<close>: the call raised \<open>e\<close> and left
  the object in state \<open>s\<close> (the blocks before the failing one have run);
  \<open>Inr s\<close>: it returned, the object in state \<open>s\<close>.
\<close>

fun run_blocks :: "('a \<Rightarrow> py_error + 'a) list \<Rightarrow> 'a \<Rightarrow> (py_error \<times> 'a) + 'a" where
  "run_blocks [] self = Inr self"
| "run_blocks (f # fs) self =
     (case f self of Inl e \<Rightarrow> Inl (e, self) | Inr self' \<Rightarrow> run_blocks fs self')"

definition update_from_status ::
  "(pyval, pyval) PrinterState \<Rightarrow> pydict
     \<Rightarrow> (py_error \<times> (pyval, pyval) PrinterState) + (pyval, pyval) PrinterState" where
  "update_from_status self status =
     run_blocks
       [update_webhooks status, update_print_stats status, update_display_status status,
        update_heater_bed status, update_extruder status, update_toolhead status,
        update_idle_timeout status]
       self"

subsection \<open>Derived predicates\<close>

definition is_heating :: "('s, real) PrinterState \<Rightarrow> bool" where
  "is_heating self = (0 < bed_target self \<or> 0 < extruder_target self)"

definition is_hot :: "('s, real) PrinterState \<Rightarrow> bool" where
  "is_hot self = (40 < bed_temp self \<or> 40 < extruder_temp self)"

definition at_temp :: "('s, real) PrinterState \<Rightarrow> real \<Rightarrow> bool" where
  "at_temp self tolerance =
     (let bed_ok = (bed_target self = 0 \<or> \<bar>bed_temp self - bed_target self\<bar> \<le> tolerance);
          ext_ok = (extruder_target self = 0
                    \<or> \<bar>extruder_temp self - extruder_target self\<bar> \<le> tolerance)
      in bed_ok \<and> ext_ok)"

definition clearly_heating :: "('s, real) PrinterState \<Rightarrow> real \<Rightarrow> bool" where
  "clearly_heating self threshold =
     (if 0 < bed_target self \<and> threshold < bed_target self - bed_temp self then True
      else if 0 < extruder_target self \<and> threshold < extruder_target self - extruder_temp self
      then True
      else False)"

subsection \<open>StateDetector\<close>

text \<open>
  What a listener raised: an instance of a class derived from \<open>Exception\<close>, which
  \<open>except Exception\<close> catches, or of a class derived from \<open>BaseException\<close> only
  (\<open>KeyboardInterrupt\<close>, \<open>SystemExit\<close>, \<open>GeneratorExit\<close>), which it does not catch.
\<close>

datatype py_raised = Raised_Exception string | Raised_BaseException string

fun is_Exception :: "py_raised \<Rightarrow> bool" where
  "is_Exception (Raised_Exception name) = True"
| "is_Exception (Raised_BaseException name) = False"

text \<open>
  A listener, \<open>Callable[[PrinterEvent], None]\<close>: called with the event, it acts on the
  world outside the detector (a state of type \<open>'w\<close>) and returns (\<open>None\<close>) or raises.
\<close>

type_synonym 'w EventCallback = "PrinterEvent \<Rightarrow> 'w \<Rightarrow> py_raised option \<times> 'w"

record 'w StateDetector =
  temp_floor :: real
  bored_timeout :: real
  sleep_timeout :: real
  current_event :: PrinterEvent
  previous_event :: PrinterEvent
  listeners :: "'w EventCallback list"
  idle_start :: "real option"
  bored_start :: "real option"

text \<open>\<open>__init__\<close>, with the reading of \<open>time.time()\<close> as \<open>now\<close>.\<close>

definition StateDetector_init :: "real \<Rightarrow> real \<Rightarrow> real \<Rightarrow> real \<Rightarrow> 'w StateDetector" where
  "StateDetector_init temp_floor' bored_timeout' sleep_timeout' now =
     \<lparr>temp_floor = temp_floor', bored_timeout = bored_timeout', sleep_timeout = sleep_timeout',
      current_event = IDLE, previous_event = IDLE, listeners = [],
      idle_start = Some now, bored_start = None\<rparr>"

definition add_listener :: "'w StateDetector \<Rightarrow> 'w EventCallback \<Rightarrow> 'w StateDetector" where
  "add_listener self callback = self\<lparr>listeners := listeners self @ [callback]\<rparr>"

text \<open>
  \<open>if self._idle_start:\<close> tests an \<open>Optional[float]\<close>: \<open>None\<close> and \<open>0.0\<close> are
  both false.
\<close>

definition timer_set :: "real option \<Rightarrow> bool" where
  "timer_set t = (case t of None \<Rightarrow> False | Some x \<Rightarrow> x \<noteq> 0)"

text \<open>
  \<open>_detect_event\<close> returns the event and may start the bored timer: the detector is
  returned with it.
\<close>

definition detect_event ::
  "'w StateDetector \<Rightarrow> (string, real) PrinterState \<Rightarrow> real \<Rightarrow> PrinterEvent \<times> 'w StateDetector" where
  "detect_event self state now =
     (if klipper_state state = ''shutdown'' \<or> klipper_state state = ''error'' then (ERROR, self)
      else if print_state' state = ''printing'' then
        (if current_event self = PRINTING then
           (if clearly_heating state 10 then (HEATING, self) else (PRINTING, self))
         else if is_heating state \<and> \<not> at_temp state 2 then (HEATING, self)
         else (PRINTING, self))
      else if is_heating state then (HEATING, self)
      else if is_hot state \<and> \<not> is_heating state then (COOLDOWN, self)
      else
        (case idle_start self of
           None \<Rightarrow> (IDLE, self)
         | Some t_idle \<Rightarrow>
             if t_idle = 0 then (IDLE, self)
             else
               (let idle_seconds = now - t_idle;
                    asleep = (case bored_start self of
                                None \<Rightarrow> False
                              | Some t_bored \<Rightarrow>
                                  t_bored \<noteq> 0 \<and> sleep_timeout self \<le> now - t_bored)
                in if asleep then (SLEEP, self)
                   else if bored_timeout self \<le> idle_seconds then
                     (BORED,
                      if \<not> timer_set (bored_start self) then self\<lparr>bored_start := Some now\<rparr>
                      else self)
                   else (IDLE, self))))"

text \<open>The timer resets of \<open>_transition\<close>.\<close>

definition reset_timers :: "'w StateDetector \<Rightarrow> PrinterEvent \<Rightarrow> real \<Rightarrow> 'w StateDetector" where
  "reset_timers self new_event now =
     (if new_event = HEATING \<or> new_event = PRINTING \<or> new_event = COOLDOWN \<or> new_event = ERROR
      then self\<lparr>idle_start := None, bored_start := None\<rparr>
      else if new_event = IDLE then self\<lparr>idle_start := Some now, bored_start := None\<rparr>
      else if new_event = BORED then self\<lparr>bored_start := Some now\<rparr>
      else self)"

text \<open>
  The loop over the listeners, each call in \<open>try: ... except Exception: pass\<close>. The
  result is what propagates out of the loop, if anything, and the world the calls leave.
\<close>

fun notify :: "'w EventCallback list \<Rightarrow> PrinterEvent \<Rightarrow> 'w \<Rightarrow> py_raised option \<times> 'w" where
  "notify [] new_event w = (None, w)"
| "notify (callback # rest) new_event w =
     (case callback new_event w of
        (None, w') \<Rightarrow> notify rest new_event w'
      | (Some x, w') \<Rightarrow> if is_Exception x then notify rest new_event w' else (Some x, w'))"

definition transition ::
  "'w StateDetector \<Rightarrow> PrinterEvent \<Rightarrow> real \<Rightarrow> 'w \<Rightarrow> py_raised option \<times> 'w StateDetector \<times> 'w" where
  "transition self new_event now w =
     (let self1 = self\<lparr>previous_event := current_event self\<rparr>;
          self2 = self1\<lparr>current_event := new_event\<rparr>;
          self3 = reset_timers self2 new_event now
      in case notify (listeners self3) new_event w of (raised, w') \<Rightarrow> (raised, self3, w'))"

datatype 'a py_outcome = Returned 'a | Raised py_raised

text \<open>\<open>update\<close>, with the reading of \<open>time.time()\<close> as \<open>now\<close>.\<close>

definition update ::
  "'w StateDetector \<Rightarrow> (string, real) PrinterState \<Rightarrow> real \<Rightarrow> 'w
     \<Rightarrow> PrinterEvent option py_outcome \<times> 'w StateDetector \<times> 'w" where
  "update self state now w =
     (case detect_event self state now of
        (new_event, self1) \<Rightarrow>
          if new_event \<noteq> current_event self1 then
            (case transition self1 new_event now w of
               (None, self2, w') \<Rightarrow> (Returned (Some new_event), self2, w')
             | (Some x, self2, w') \<Rightarrow> (Raised x, self2, w'))
          else (Returned None, self1, w))"

definition force_event ::
  "'w StateDetector \<Rightarrow> PrinterEvent \<Rightarrow> real \<Rightarrow> 'w \<Rightarrow> py_raised option \<times> 'w StateDetector \<times> 'w" where
  "force_event self event now w = transition self event now w"

section \<open>states/bored.py and states/sleep.py\<close>

text \<open>\<open>d.get(key, default)\<close> on a value known to be a dict.\<close>

definition dict_get :: "pydict \<Rightarrow> string \<Rightarrow> pyval \<Rightarrow> pyval" where
  "dict_get d k dflt = (case map_of d k of None \<Rightarrow> dflt | Some v \<Rightarrow> v)"

text \<open>
  \<open>context\<close> is \<open>Optional[Dict[str, Any]]\<close>; \<open>not context\<close> holds of \<open>None\<close> and of
  the empty dict.
\<close>

definition BoredDetector_detect :: "pydict \<Rightarrow> pydict option \<Rightarrow> py_error + bool" where
  "BoredDetector_detect status context =
     (case context of
        None \<Rightarrow> Inr False
      | Some ctx \<Rightarrow>
          if ctx = [] then Inr False
          else
            (let extruder = dict_get status ''extruder'' (PDict []);
                 heater_bed = dict_get status ''heater_bed'' (PDict [])
             in case py_get extruder ''target'' (PInt 0) of
                  Inl e \<Rightarrow> Inl e
                | Inr ext_target \<Rightarrow>
             (case py_gt_zero ext_target of
                  Inl e \<Rightarrow> Inl e
                | Inr ext_on \<Rightarrow>
             (case (if ext_on then Inr True
                    else (case py_get heater_bed ''target'' (PInt 0) of
                            Inl e \<Rightarrow> Inl e
                          | Inr bed_tgt \<Rightarrow> py_gt_zero bed_tgt)) of
                  Inl e \<Rightarrow> Inl e
                | Inr heater_on \<Rightarrow>
                    if heater_on then Inr False
                    else
             (let print_stats = dict_get status ''print_stats'' (PDict [])
              in case py_get print_stats ''state'' (PStr []) of
                  Inl e \<Rightarrow> Inl e
                | Inr ps_state \<Rightarrow>
             (case py_lower ps_state of
                  Inl e \<Rightarrow> Inl e
                | Inr ps_lower \<Rightarrow>
                    if ps_lower \<in> set [''printing'', ''paused''] then Inr False
                    else
             (case py_get (dict_get status ''idle_timeout'' (PDict [])) ''state'' (PStr []) of
                  Inl e \<Rightarrow> Inl e
                | Inr it_state \<Rightarrow>
             (case py_lower it_state of
                  Inl e \<Rightarrow> Inl e
                | Inr it_lower \<Rightarrow>
                    if it_lower = ''error'' then Inr False
                    else
             (let bored_timeout' = dict_get ctx ''bored_timeout'' (PFloat 60);
                  last_state = dict_get ctx ''last_state'' (PStr []);
                  state_enter_time = dict_get ctx ''state_enter_time'' (PFloat 0);
                  current_time = dict_get ctx ''current_time'' (PFloat 0)
              in if last_state = PStr ''bored'' then Inr True
                 else if last_state = PStr ''idle'' then
                   (case py_sub current_time state_enter_time of
                      Inl e \<Rightarrow> Inl e
                    | Inr idle_duration \<Rightarrow> py_ge idle_duration bored_timeout')
                 else Inr False)))))))))"

definition SleepDetector_detect :: "pydict \<Rightarrow> pydict option \<Rightarrow> py_error + bool" where
  "SleepDetector_detect status context =
     (case context of
        None \<Rightarrow> Inr False
      | Some ctx \<Rightarrow>
          if ctx = [] then Inr False
          else
            (let extruder = dict_get status ''extruder'' (PDict []);
                 heater_bed = dict_get status ''heater_bed'' (PDict [])
             in case py_get extruder ''target'' (PInt 0) of
                  Inl e \<Rightarrow> Inl e
                | Inr ext_target \<Rightarrow>
             (case py_gt_zero ext_target of
                  Inl e \<Rightarrow> Inl e
                | Inr ext_on \<Rightarrow>
             (case (if ext_on then Inr True
                    else (case py_get heater_bed ''target'' (PInt 0) of
                            Inl e \<Rightarrow> Inl e
                          | Inr bed_tgt \<Rightarrow> py_gt_zero bed_tgt)) of
                  Inl e \<Rightarrow> Inl e
                | Inr heater_on \<Rightarrow>
                    if heater_on then Inr False
                    else
             (let print_stats = dict_get status ''print_stats'' (PDict [])
              in case py_get print_stats ''state'' (PStr []) of
                  Inl e \<Rightarrow> Inl e
                | Inr ps_state \<Rightarrow>
             (case py_lower ps_state of
                  Inl e \<Rightarrow> Inl e
                | Inr ps_lower \<Rightarrow>
                    if ps_lower \<in> set [''printing'', ''paused''] then Inr False
                    else
             (case py_get (dict_get status ''idle_timeout'' (PDict [])) ''state'' (PStr []) of
                  Inl e \<Rightarrow> Inl e
                | Inr it_state \<Rightarrow>
             (case py_lower it_state of
                  Inl e \<Rightarrow> Inl e
                | Inr it_lower \<Rightarrow>
                    if it_lower = ''error'' then Inr False
                    else
             (let sleep_timeout' = dict_get ctx ''sleep_timeout'' (PFloat 300);
                  last_state = dict_get ctx ''last_state'' (PStr []);
                  state_enter_time = dict_get ctx ''state_enter_time'' (PFloat 0);
                  current_time = dict_get ctx ''current_time'' (PFloat 0)
              in if last_state = PStr ''sleep'' then Inr True
                 else if last_state \<noteq> PStr ''bored'' then Inr False
                 else
                   (case py_sub current_time state_enter_time of
                      Inl e \<Rightarrow> Inl e
                    | Inr bored_duration \<Rightarrow>
                        (case py_ge bored_duration sleep_timeout' of
                           Inl e \<Rightarrow> Inl e
                         | Inr long_enough \<Rightarrow> if long_enough then Inr True else Inr False)))))))))))"

section \<open>Predicates used in the statements\<close>

text \<open>
  A listener whose failures are errors: whatever the event and the world, it returns or
  raises an instance of a class derived from \<open>Exception\<close>.
\<close>

definition raises_only_Exception :: "'w EventCallback \<Rightarrow> bool" where
  "raises_only_Exception callback =
     (\<forall>e w. case fst (callback e w) of None \<Rightarrow> True | Some x \<Rightarrow> is_Exception x)"

text \<open>
  What the standard library documents of the random source: \<open>randint(a, b)\<close> returns
  an \<open>N\<close> with \<open>a \<le> N \<le> b\<close>, and \<open>shuffle\<close> leaves a permutation of the list.
\<close>

definition random_contract :: "'g Random \<Rightarrow> bool" where
  "random_contract R =
     ((\<forall>a b g. a \<le> b \<longrightarrow>
         a \<le> fst (random_randint R a b g) \<and> fst (random_randint R a b g) \<le> b)
      \<and> (\<forall>xs g. mset (fst (random_shuffle R xs g)) = mset xs))"

text \<open>The number of lit entries of a buffer: those that are not \<open>None\<close>.\<close>

definition count_lit :: "RGB option list \<Rightarrow> nat" where
  "count_lit buffer = length (filter (\<lambda>c. c \<noteq> None) buffer)"

text \<open>
  What a snapshot carries for sub-key \<open>k\<close> of group \<open>grp\<close>: nothing when the group
  is absent or the sub-key is absent from it.
\<close>

definition sub_field :: "pydict \<Rightarrow> string \<Rightarrow> string \<Rightarrow> pyval option" where
  "sub_field status grp k =
     (case map_of status grp of
        None \<Rightarrow> None
      | Some v \<Rightarrow> (case v of PDict d \<Rightarrow> map_of d k | _ \<Rightarrow> None))"

text \<open>
  Coordinate \<open>i\<close> of the toolhead position as the block stores it: an item of a list,
  a one-character str of a str, when there are at least three.
\<close>

definition position_item :: "pydict \<Rightarrow> nat \<Rightarrow> pyval option" where
  "position_item status i =
     (case sub_field status ''toolhead'' ''position'' of
        None \<Rightarrow> None
      | Some v \<Rightarrow>
          (case v of
             PList xs \<Rightarrow> if 3 \<le> length xs then Some (xs ! i) else None
           | PStr t \<Rightarrow> if 3 \<le> length t then Some (PStr [t ! i]) else None
           | _ \<Rightarrow> None))"

definition recognised_groups :: "string list" where
  "recognised_groups =
     [''webhooks'', ''print_stats'', ''display_status'', ''heater_bed'', ''extruder'',
      ''toolhead'', ''idle_timeout'']"

text \<open>The sub-keys the block of a group tests.\<close>

definition block_keys :: "string \<Rightarrow> string list" where
  "block_keys grp =
     (if grp = ''webhooks'' then [''state'']
      else if grp = ''print_stats'' then [''state'', ''filename'']
      else if grp = ''display_status'' then [''progress'']
      else if grp = ''heater_bed'' then [''temperature'', ''target'']
      else if grp = ''extruder'' then [''temperature'', ''target'']
      else if grp = ''toolhead'' then [''position'']
      else if grp = ''idle_timeout'' then [''state'']
      else [])"

definition is_mapping :: "pyval \<Rightarrow> bool" where
  "is_mapping v = (case v of PDict d \<Rightarrow> True | _ \<Rightarrow> False)"

text \<open>
  A group value that a block passes over without reading anything: a list or a str in
  which none of the block's sub-keys occurs.
\<close>

definition passed_over :: "string list \<Rightarrow> pyval \<Rightarrow> bool" where
  "passed_over keys v =
     (case v of
        PList xs \<Rightarrow> (\<forall>k \<in> set keys. PStr k \<notin> set xs)
      | PStr t \<Rightarrow> (\<forall>k \<in> set keys. \<not> is_substring k t)
      | _ \<Rightarrow> False)"

text \<open>
  The snapshots \<open>update_from_status\<close> tolerates: every recognised group is absent, a
  mapping, or passed over; and the toolhead position, where the snapshot carries one, is a
  list, a str, or a mapping with fewer than three keys.
\<close>

definition group_tolerated :: "pydict \<Rightarrow> string \<Rightarrow> bool" where
  "group_tolerated status grp =
     (case map_of status grp of
        None \<Rightarrow> True
      | Some v \<Rightarrow> is_mapping v \<or> passed_over (block_keys grp) v)"

definition position_tolerated :: "pydict \<Rightarrow> bool" where
  "position_tolerated status =
     (case sub_field status ''toolhead'' ''position'' of
        None \<Rightarrow> True
      | Some pos \<Rightarrow>
          (case pos of
             PList xs \<Rightarrow> True
           | PStr t \<Rightarrow> True
           | PDict d \<Rightarrow> length (remdups (map fst d)) < 3
           | _ \<Rightarrow> False))"

definition status_tolerated :: "pydict \<Rightarrow> bool" where
  "status_tolerated status =
     ((\<forall>grp \<in> set recognised_groups. group_tolerated status grp)
      \<and> position_tolerated status)"

text \<open>The value a field holds after a merge: the prior one unless the snapshot carries one.\<close>

definition stored :: "'a \<Rightarrow> 'a option \<Rightarrow> 'a" where
  "stored old new = (case new of None \<Rightarrow> old | Some v \<Rightarrow> v)"

text \<open>
  The conditions of the detectors' shared guard, read off a snapshot: a heater target is
  set when the group carries a number above 0 under \<open>target\<close>; a sub-state is \<open>name\<close>
  when the group carries that string under \<open>state\<close>.
\<close>

definition heater_target_set :: "pydict \<Rightarrow> string \<Rightarrow> bool" where
  "heater_target_set status heater =
     (case sub_field status heater ''target'' of
        None \<Rightarrow> False
      | Some v \<Rightarrow> (case py_num v of None \<Rightarrow> False | Some r \<Rightarrow> 0 < r))"

definition sub_state_is :: "pydict \<Rightarrow> string \<Rightarrow> string \<Rightarrow> bool" where
  "sub_state_is status grp name = (sub_field status grp ''state'' = Some (PStr name))"

definition guard_trips :: "pydict \<Rightarrow> bool" where
  "guard_trips status =
     (heater_target_set status ''extruder'' \<or> heater_target_set status ''heater_bed''
      \<or> sub_state_is status ''print_stats'' ''printing''
      \<or> sub_state_is status ''print_stats'' ''paused''
      \<or> sub_state_is status ''idle_timeout'' ''error'')"

text \<open>
  A snapshot is well typed for the detectors when each group they read is absent or a
  mapping, each target it carries is a number and each state it carries is a string.
\<close>

definition is_number :: "pyval \<Rightarrow> bool" where
  "is_number v = (case py_num v of None \<Rightarrow> False | Some r \<Rightarrow> True)"

definition is_str :: "pyval \<Rightarrow> bool" where
  "is_str v = (case v of PStr t \<Rightarrow> True | _ \<Rightarrow> False)"

definition well_typed_group :: "pydict \<Rightarrow> string \<Rightarrow> string \<Rightarrow> (pyval \<Rightarrow> bool) \<Rightarrow> bool" where
  "well_typed_group status grp k ok =
     (case map_of status grp of
        None \<Rightarrow> True
      | Some v \<Rightarrow>
          (case v of
             PDict d \<Rightarrow> (case map_of d k of None \<Rightarrow> True | Some x \<Rightarrow> ok x)
           | _ \<Rightarrow> False))"

definition detector_status_well_typed :: "pydict \<Rightarrow> bool" where
  "detector_status_well_typed status =
     (well_typed_group status ''extruder'' ''target'' is_number
      \<and> well_typed_group status ''heater_bed'' ''target'' is_number
      \<and> well_typed_group status ''print_stats'' ''state'' is_str
      \<and> well_typed_group status ''idle_timeout'' ''state'' is_str)"

text \<open>
  The reads the guard makes, named so that both detectors can be reasoned about at once:
  \<open>status.get(heater, {}).get('target', 0) > 0\<close>,
  \<open>status.get(grp, {}).get('state', '').lower()\<close>, and the four tests in the order of
  the source (\<open>Inr True\<close>: a test fired and the detector returns false).
\<close>

definition heater_on :: "pydict \<Rightarrow> string \<Rightarrow> py_error + bool" where
  "heater_on status heater =
     (case py_get (dict_get status heater (PDict [])) ''target'' (PInt 0) of
        Inl e \<Rightarrow> Inl e
      | Inr t \<Rightarrow> py_gt_zero t)"

definition state_lower :: "pydict \<Rightarrow> string \<Rightarrow> py_error + string" where
  "state_lower status grp =
     (case py_get (dict_get status grp (PDict [])) ''state'' (PStr []) of
        Inl e \<Rightarrow> Inl e
      | Inr v \<Rightarrow> py_lower v)"

definition idle_guard :: "pydict \<Rightarrow> py_error + bool" where
  "idle_guard status =
     (case heater_on status ''extruder'' of
        Inl e \<Rightarrow> Inl e
      | Inr ext_on \<Rightarrow>
          if ext_on then Inr True
          else
            (case heater_on status ''heater_bed'' of
               Inl e \<Rightarrow> Inl e
             | Inr bed_on \<Rightarrow>
                 if bed_on then Inr True
                 else
                   (case state_lower status ''print_stats'' of
                      Inl e \<Rightarrow> Inl e
                    | Inr ps \<Rightarrow>
                        if ps \<in> set [''printing'', ''paused''] then Inr True
                        else
                          (case state_lower status ''idle_timeout'' of
                             Inl e \<Rightarrow> Inl e
                           | Inr it \<Rightarrow> if it = ''error'' then Inr True else Inr False))))"

section \<open>Sample inputs\<close>

text \<open>
  A deterministic random source for concrete runs. Its state is a counter;
  \<open>randint(a, b)\<close> lands in \<open>[a, b]\<close>, \<open>shuffle\<close> permutes (it reverses) and
  \<open>random()\<close> lands in \<open>[0, 1)\<close>.
\<close>

definition sample_random :: "int Random" where
  "sample_random =
     \<lparr>random_seed = (\<lambda>n. n),
      random_randint = (\<lambda>a b g. (a + g mod (b - a + 1), g + 1)),
      random_shuffle = (\<lambda>xs g. (rev xs, g + 1)),
      random_random = (\<lambda>g. (of_int (g mod 6) / 6, g + 1))\<rparr>"

text \<open>Listeners that append their name to a log, the world; the second kind then raises.\<close>

definition listener_log :: "string \<Rightarrow> (string list) EventCallback" where
  "listener_log name new_event w = (None, w @ [name])"

definition listener_raise :: "py_raised \<Rightarrow> string \<Rightarrow> (string list) EventCallback" where
  "listener_raise x name new_event w = (Some x, w @ [name])"

text \<open>A cold printer with no heater target set, in a given machine state and print sub-state.\<close>

definition cold_printer :: "string \<Rightarrow> string \<Rightarrow> (string, real) PrinterState" where
  "cold_printer machine printing =
     \<lparr>klipper_state = machine, print_state' = printing, progress = 0, filename = [],
      bed_temp = 0, bed_target = 0, extruder_temp = 0, extruder_target = 0, position_x = 0,
      position_y = 0, position_z = 0, idle_state = ''Ready''\<rparr>"

text \<open>
  A detector as constructed at time 0 with the default thresholds, with two listeners: the
  first logs and raises \<open>x\<close>, the second logs.
\<close>

definition sample_detector :: "py_raised \<Rightarrow> (string list) StateDetector" where
  "sample_detector x =
     add_listener
       (add_listener (StateDetector_init 25 300 600 0) (listener_raise x ''first''))
       (listener_log ''second'')"

text \<open>
  A snapshot with a null heater target, a group that is not recognised, a recognised group
  that is a str without its sub-keys, and the machine state.
\<close>

definition sample_status :: pydict where
  "sample_status =
     [(''heater_bed'', PDict [(''target'', PNone), (''temperature'', PFloat 60)]),
      (''fan'', PInt 1),
      (''print_stats'', PStr ''n/a''),
      (''webhooks'', PDict [(''state'', PStr ''ready'')])]"

text \<open>
  A snapshot with a bed target of 60 and a null extruder target, and one with the bed
  target alone; a timing context in which the last state is \<open>bored\<close>.
\<close>

definition status_null_extruder :: pydict where
  "status_null_extruder =
     [(''extruder'', PDict [(''target'', PNone)]),
      (''heater_bed'', PDict [(''target'', PFloat 60)])]"

definition status_bed_heating :: pydict where
  "status_bed_heating = [(''heater_bed'', PDict [(''target'', PFloat 60)])]"

definition context_bored :: "pydict option" where
  "context_bored =
     Some [(''last_state'', PStr ''bored''), (''state_enter_time'', PFloat 0),
           (''current_time'', PFloat 1000)]"

section \<open>Properties of the effects\<close>

subsection \<open>Pulse\<close>

text \<open>
  C3. Pulse: the result is \<open>base_color\<close> scaled per channel by
  \<open>min_b + ((sin(2 pi speed (now - start_time)) + 1) / 2) (max_b - min_b)\<close>, and at
  \<open>now = start_time\<close> that brightness is the midpoint \<open>(min_b + max_b) / 2\<close>.
\<close>

theorem effect_pulse_formula:
  "effect_pulse s now =
     scale_rgb (base_color s)
       (min_brightness s
        + ((sin (2 * pi * speed s * (now - start_time s)) + 1) / 2)
          * (max_brightness s - min_brightness s))
   \<and> effect_pulse s (start_time s) =
     scale_rgb (base_color s) ((min_brightness s + max_brightness s) / 2)
   \<and> scale_rgb (r, g, b) k = (r * k, g * k, b * k)"
proof -
  have arg: "(now - start_time s) * speed s * 2 * pi = 2 * pi * speed s * (now - start_time s)"
    by (simp add: mult_ac)
  have mid: "min_brightness s + (max_brightness s - min_brightness s) / 2
             = (min_brightness s + max_brightness s) / 2"
    by (simp add: field_simps)
  have first: "effect_pulse s now =
     scale_rgb (base_color s)
       (min_brightness s
        + ((sin (2 * pi * speed s * (now - start_time s)) + 1) / 2)
          * (max_brightness s - min_brightness s))"
    by (simp add: effect_pulse_def Let_def arg)
  have second: "effect_pulse s (start_time s) =
     scale_rgb (base_color s) ((min_brightness s + max_brightness s) / 2)"
    by (simp add: effect_pulse_def Let_def mid)
  have third: "scale_rgb (r, g, b) k = (r * k, g * k, b * k)"
    by (simp add: scale_rgb_def)
  from first second third show ?thesis by blast
qed

theorem effect_pulse_formula_witness:
  "effect_pulse (EffectState_default\<lparr>base_color := (1, 1 / 2, 0)\<rparr>) (1 / 4) = (1, 1 / 2, 0)
   \<and> effect_pulse (EffectState_default\<lparr>base_color := (1, 1 / 2, 0)\<rparr>) 0 = (3 / 5, 3 / 10, 0)"
  using effect_pulse_formula [of "EffectState_default\<lparr>base_color := (1, 1 / 2, 0)\<rparr>" "1 / 4"]
  by (simp add: EffectState_default_def scale_rgb_def)

lemma upt4: "[0..<4] = [0, 1, 2, 3]"
  by (simp add: upt_rec)

subsection \<open>Heartbeat\<close>

text \<open>
  The five phases as the source computes them, for a phase in \<open>[0, 1)\<close>. The first
  rise, the dip, the fade and the rest are the linear pieces the docstring describes; the
  second rise starts from \<open>min_b + 0.5\<close>.
\<close>

lemmas heartbeat_constants =
  HEARTBEAT_FIRST_PULSE_DURATION_def HEARTBEAT_DIP_DURATION_def
  HEARTBEAT_SECOND_PULSE_DURATION_def HEARTBEAT_FADE_DURATION_def
  HEARTBEAT_SECOND_PULSE_INTENSITY_def

lemma heartbeat_first_rise:
  "phase < 3 / 20 \<Longrightarrow>
   heartbeat_brightness s phase
     = min_brightness s + (phase / (3 / 20)) * (max_brightness s - min_brightness s)"
  by (simp add: heartbeat_brightness_def heartbeat_constants Let_def)

lemma heartbeat_dip:
  "3 / 20 \<le> phase \<Longrightarrow> phase < 1 / 5 \<Longrightarrow>
   heartbeat_brightness s phase
     = max_brightness s
       - ((phase - 3 / 20) / (1 / 20)) * (max_brightness s - min_brightness s) * (1 / 2)"
  by (simp add: heartbeat_brightness_def heartbeat_constants Let_def)

lemma heartbeat_second_rise_as_coded:
  "1 / 5 \<le> phase \<Longrightarrow> phase < 1 / 4 \<Longrightarrow>
   heartbeat_brightness s phase
     = min_brightness s + 1 / 2
       + ((phase - 1 / 5) / (1 / 20)) * (max_brightness s - min_brightness s) * (1 / 2)"
  by (simp add: heartbeat_brightness_def heartbeat_constants Let_def)

lemma heartbeat_fade:
  "1 / 4 \<le> phase \<Longrightarrow> phase < 7 / 20 \<Longrightarrow>
   heartbeat_brightness s phase
     = max_brightness s - ((phase - 1 / 4) / (1 / 10)) * (max_brightness s - min_brightness s)"
  by (simp add: heartbeat_brightness_def heartbeat_constants Let_def)

lemma heartbeat_rest:
  "7 / 20 \<le> phase \<Longrightarrow> heartbeat_brightness s phase = min_brightness s"
  by (simp add: heartbeat_brightness_def heartbeat_constants Let_def)

lemma heartbeat_boundaries:
  "heartbeat_brightness s 0 = min_brightness s"
  "heartbeat_brightness s (3 / 20) = max_brightness s"
  by (simp_all add: heartbeat_brightness_def heartbeat_constants Let_def)

lemma heartbeat_phase_range:
  assumes "0 < speed s"
  shows "\<exists>p. heartbeat_phase s now = Inr p \<and> 0 \<le> p \<and> p < 1"
proof -
  define c where "c = 1 / speed s"
  define x where "x = now - start_time s"
  from assms have c: "0 < c" by (simp add: c_def)
  have eq: "(x - c * of_int \<lfloor>x / c\<rfloor>) / c = x / c - of_int \<lfloor>x / c\<rfloor>"
    using c by (simp add: field_simps)
  have "0 \<le> x / c - of_int \<lfloor>x / c\<rfloor>" "x / c - of_int \<lfloor>x / c\<rfloor> < 1"
    by linarith+
  with eq have "0 \<le> (x - c * of_int \<lfloor>x / c\<rfloor>) / c \<and> (x - c * of_int \<lfloor>x / c\<rfloor>) / c < 1"
    by simp
  moreover from assms c have "heartbeat_phase s now = Inr ((x - c * of_int \<lfloor>x / c\<rfloor>) / c)"
    by (simp add: heartbeat_phase_def py_truediv_def py_mod_def Let_def c_def x_def)
  ultimately show ?thesis by blast
qed


text \<open>
  C2. Heartbeat's third phase (0.20 to 0.25 of the cycle) should rise linearly from
  \<open>max_b - 0.5 (max_b - min_b)\<close> back to \<open>max_b\<close>. The source starts it from
  \<open>min_b + 0.5\<close> instead: with the default bounds 0.2 and 1.0, speed 1 and a white
  base colour, the middle of the phase (\<open>now = 0.225\<close>) has brightness 0.9, where the
  linear rise from 0.6 to 1.0 has 0.8.
\<close>

theorem effect_heartbeat_second_rise:
  "effect_heartbeat (EffectState_default\<lparr>base_color := (1, 1, 1)\<rparr>) (9 / 40)
     = Inr (9 / 10, 9 / 10, 9 / 10)"
  by (simp add: effect_heartbeat_def heartbeat_phase_def py_truediv_def py_mod_def
        heartbeat_brightness_def EffectState_default_def scale_rgb_def Let_def
        HEARTBEAT_FIRST_PULSE_DURATION_def HEARTBEAT_DIP_DURATION_def
        HEARTBEAT_SECOND_PULSE_DURATION_def HEARTBEAT_FADE_DURATION_def
        HEARTBEAT_SECOND_PULSE_INTENSITY_def)

subsection \<open>Disco: the state object\<close>

lemma disco_example:
  "effect_disco sample_random EffectState_default 5 4
     = Inr ([None, None, None, Some (0, 0, 1)], True)"
  by (simp add: effect_disco_def sample_random_def EffectState_default_def py_truediv_def
        py_int_def py_randint_def py_range_def upt4 py_slice_to_def disco_color_def Let_def)

lemma default_timing: "last_update EffectState_default = 0 \<and> speed EffectState_default = 1"
  by (simp add: EffectState_default_def)

text \<open>The loop leaves the object alone and computes the colours of \<open>disco_colors\<close>.\<close>

lemma disco_loop_object:
  "state_object (snd (disco_loop R lit xs w)) = state_object w"
  by (induction xs arbitrary: w) (simp_all add: Let_def split_beta)

lemma disco_loop_colors:
  "fst (disco_loop R lit xs w) = disco_colors R (state_object w) lit xs (generator w)"
proof (induction xs arbitrary: w)
  case Nil
  show ?case by simp
next
  case (Cons i rest)
  show ?case
  proof (cases "i \<in> lit")
    case False
    with Cons.IH [of w] show ?thesis
      by (simp add: split_beta)
  next
    case True
    obtain hue g' where draw: "random_random R (generator w) = (hue, g')"
      by (cases "random_random R (generator w)")
    with True Cons.IH [of "w\<lparr>generator := g'\<rparr>"] show ?thesis
      by (simp add: Let_def split_beta)
  qed
qed

lemma effect_disco_run_object:
  "state_object (snd (effect_disco_run R now led_count w)) = state_object w"
proof (cases "py_truediv 1 (speed (state_object w))")
  case (Inl e)
  then show ?thesis
    by (simp add: effect_disco_run_def)
next
  case (Inr interval)
  show ?thesis
  proof (cases "now - last_update (state_object w) < interval")
    case True
    with Inr show ?thesis
      by (simp add: effect_disco_run_def)
  next
    case False
    define w1 where "w1 = w\<lparr>generator := random_seed R (py_int (now * 1000000))\<rparr>"
    show ?thesis
    proof (cases "py_randint R (min (min_sparkle (state_object w)) led_count)
                    (min (max_sparkle (state_object w)) led_count) (generator w1)")
      case (Inl e)
      with Inr False show ?thesis
        by (simp add: effect_disco_run_def Let_def w1_def)
    next
      case draw: (Inr r)
      obtain num_lit g1 where r: "r = (num_lit, g1)"
        by (cases r)
      obtain sh g2 where shuf: "random_shuffle R (py_range led_count) g1 = (sh, g2)"
        by (cases "random_shuffle R (py_range led_count) g1")
      from Inr False draw r shuf
        disco_loop_object [of R "set (py_slice_to sh num_lit)" "py_range led_count"
          "w\<lparr>generator := g2\<rparr>"]
      show ?thesis
        by (simp add: effect_disco_run_def Let_def w1_def split_beta)
    qed
  qed
qed

lemma effect_disco_run_result:
  "fst (effect_disco_run R now led_count w) = effect_disco R (state_object w) now led_count"
proof (cases "py_truediv 1 (speed (state_object w))")
  case (Inl e)
  then show ?thesis
    by (simp add: effect_disco_run_def effect_disco_def)
next
  case (Inr interval)
  show ?thesis
  proof (cases "now - last_update (state_object w) < interval")
    case True
    with Inr show ?thesis
      by (simp add: effect_disco_run_def effect_disco_def)
  next
    case False
    define w1 where "w1 = w\<lparr>generator := random_seed R (py_int (now * 1000000))\<rparr>"
    show ?thesis
    proof (cases "py_randint R (min (min_sparkle (state_object w)) led_count)
                    (min (max_sparkle (state_object w)) led_count) (generator w1)")
      case (Inl e)
      with Inr False show ?thesis
        by (simp add: effect_disco_run_def effect_disco_def Let_def w1_def)
    next
      case draw: (Inr r)
      obtain num_lit g1 where r: "r = (num_lit, g1)"
        by (cases r)
      obtain sh g2 where shuf: "random_shuffle R (py_range led_count) g1 = (sh, g2)"
        by (cases "random_shuffle R (py_range led_count) g1")
      from Inr False draw r shuf
        disco_loop_colors [of R "set (py_slice_to sh num_lit)" "py_range led_count"
          "w\<lparr>generator := g2\<rparr>"]
      show ?thesis
        by (simp add: effect_disco_run_def effect_disco_def Let_def w1_def split_beta)
    qed
  qed
qed

lemma disco_run_example:
  "effect_disco_run sample_random 5 4 \<lparr>state_object = EffectState_default, generator = 0\<rparr>
     = (Inr ([None, None, None, Some (0, 0, 1)], True),
        \<lparr>state_object = EffectState_default, generator = 5000003\<rparr>)"
  by (simp add: effect_disco_run_def sample_random_def EffectState_default_def py_truediv_def
        py_int_def py_randint_def py_range_def upt4 py_slice_to_def disco_color_def Let_def)

text \<open>
  C1 (as amended). \<open>effect_disco\<close> mutates no field of its \<open>EffectState\<close>,
  \<open>last_update\<close> included: whatever the store, the time and the LED count, the object
  in the store after the call is the object before it, whether the call fires, does not
  fire or raises; \<open>last_update\<close> is only read, for the gate. What the call returns is
  what \<open>effect_disco\<close> computes from that object.
\<close>

theorem effect_disco_leaves_state:
  "state_object (snd (effect_disco_run R now led_count w)) = state_object w
   \<and> last_update (state_object (snd (effect_disco_run R now led_count w)))
       = last_update (state_object w)
   \<and> fst (effect_disco_run R now led_count w) = effect_disco R (state_object w) now led_count"
  using effect_disco_run_object [of R now led_count w]
    effect_disco_run_result [of R now led_count w]
  by simp

theorem effect_disco_leaves_state_witness:
  "state_object (snd (effect_disco_run sample_random 5 4
       \<lparr>state_object = EffectState_default, generator = 0\<rparr>)) = EffectState_default
   \<and> fst (effect_disco_run sample_random 5 4
       \<lparr>state_object = EffectState_default, generator = 0\<rparr>)
       = Inr ([None, None, None, Some (0, 0, 1)], True)"
  using effect_disco_leaves_state
          [of sample_random 5 4 "\<lparr>state_object = EffectState_default, generator = 0\<rparr>"]
  by (simp add: disco_example)

text \<open>
  C1 as stated fails: with the default state (\<open>last_update = 0\<close>, \<open>speed = 1\<close>) and
  \<open>now = 5\<close> the call fires and draws from the generator, and \<open>last_update\<close> is
  still 0 afterwards, not 5.
\<close>

theorem effect_disco_last_update_counterexample:
  "1 / speed EffectState_default \<le> 5 - last_update EffectState_default
   \<and> fst (effect_disco_run sample_random 5 4
       \<lparr>state_object = EffectState_default, generator = 0\<rparr>)
       = Inr ([None, None, None, Some (0, 0, 1)], True)
   \<and> generator (snd (effect_disco_run sample_random 5 4
       \<lparr>state_object = EffectState_default, generator = 0\<rparr>)) = 5000003
   \<and> last_update (state_object (snd (effect_disco_run sample_random 5 4
       \<lparr>state_object = EffectState_default, generator = 0\<rparr>))) = 0
   \<and> last_update (state_object (snd (effect_disco_run sample_random 5 4
       \<lparr>state_object = EffectState_default, generator = 0\<rparr>))) \<noteq> 5"
  by (simp add: disco_run_example default_timing)

subsection \<open>Gradient fill\<close>

lemma fill_colors_direction:
  "fill_colors (s\<lparr>direction := d\<rparr>) lit_count led_count xs = fill_colors s lit_count led_count xs"
  by (induction xs) (simp_all add: Let_def split: sum.splits)

lemma fill_standard_example:
  "effect_fill (EffectState_default\<lparr>direction := ''standard''\<rparr>) (1 / 2) 4
     = Inr [Some (1 / 2, 1 / 2, 1 / 2), Some (1 / 3, 2 / 3, 1 / 3), None, None]"
  by (simp add: effect_fill_def EffectState_default_def py_range_def upt4 Let_def
        gradient_t_def py_pow_def lerp_color_def scale_rgb_def)

text \<open>
  C8. With \<open>direction = 'reverse'\<close>, \<open>effect_fill\<close> returns the reversal of the buffer
  it returns with \<open>direction = 'standard'\<close> on the same inputs (and raises where that
  call raises).
\<close>

theorem effect_fill_reverse:
  "effect_fill (s\<lparr>direction := ''reverse''\<rparr>) fill_percent led_count =
     (case effect_fill (s\<lparr>direction := ''standard''\<rparr>) fill_percent led_count of
        Inl e \<Rightarrow> Inl e
      | Inr colors \<Rightarrow> Inr (rev colors))"
  by (simp add: effect_fill_def Let_def fill_colors_direction split: sum.splits)

theorem effect_fill_reverse_witness:
  "effect_fill (EffectState_default\<lparr>direction := ''reverse''\<rparr>) (1 / 2) 4
     = Inr [None, None, Some (1 / 3, 2 / 3, 1 / 3), Some (1 / 2, 1 / 2, 1 / 2)]"
  using effect_fill_reverse [of EffectState_default "1 / 2" 4]
  by (simp add: fill_standard_example)


subsection \<open>Disco: the gate and the lit count\<close>

lemma disco_colors_length: "length (disco_colors R s lit xs g) = length xs"
  by (induction xs arbitrary: g) (simp_all split: prod.splits)

lemma count_lit_simps:
  "count_lit [] = 0"
  "count_lit (None # cs) = count_lit cs"
  "count_lit (Some c # cs) = Suc (count_lit cs)"
  by (simp_all add: count_lit_def del: not_None_eq)

lemma disco_colors_count:
  "count_lit (disco_colors R s lit xs g) = length (filter (\<lambda>i. i \<in> lit) xs)"
  by (induction xs arbitrary: g) (simp_all add: count_lit_simps split: prod.splits)

lemma py_range_distinct: "distinct (py_range n)"
  by (simp add: py_range_def distinct_map inj_on_def)

lemma py_range_length: "length (py_range n) = nat n"
  by (simp add: py_range_def)

lemma lit_indices_count:
  assumes k0: "0 \<le> k" and kn: "k \<le> n" and perm: "mset sh = mset (py_range n)"
  shows "length (filter (\<lambda>i. i \<in> set (py_slice_to sh k)) (py_range n)) = nat k"
proof -
  from perm have dist: "distinct sh"
    using py_range_distinct [of n] mset_eq_imp_distinct_iff by blast
  from perm have sets: "set sh = set (py_range n)"
    by (rule mset_eq_setD)
  from perm have len: "length sh = nat n"
    using mset_eq_length [of sh "py_range n"] by (simp add: py_range_length)
  from k0 have slice: "py_slice_to sh k = take (nat k) sh"
    by (simp add: py_slice_to_def)
  have sub: "set (take (nat k) sh) \<subseteq> set (py_range n)"
    using sets set_take_subset [of "nat k" sh] by simp
  have "length (filter (\<lambda>i. i \<in> set (take (nat k) sh)) (py_range n))
          = card {i \<in> set (py_range n). i \<in> set (take (nat k) sh)}"
    using py_range_distinct [of n] by (simp add: distinct_length_filter Int_def conj_commute)
  also have "{i \<in> set (py_range n). i \<in> set (take (nat k) sh)} = set (take (nat k) sh)"
    using sub by blast
  also have "card (set (take (nat k) sh)) = length (take (nat k) sh)"
    using dist by (simp add: distinct_card)
  also have "\<dots> = nat k"
    using kn len by simp
  finally show ?thesis
    by (simp add: slice)
qed

text \<open>
  C7 (as amended). With \<open>speed > 0\<close>, \<open>effect_disco\<close> returns \<open>([], False)\<close>
  whenever \<open>now - last_update < 1 / speed\<close>, whatever the sparkle bounds, the LED count
  and the random source. Otherwise, when \<open>min_sparkle \<ge> 0\<close>, \<open>led_count \<ge> 0\<close>
  and the range \<open>[min(min_sparkle, N), min(max_sparkle, N)]\<close> is not empty (as it is
  when \<open>min_sparkle \<le> max_sparkle\<close>), and the random source keeps the library's
  contract, it returns \<open>(buffer, True)\<close> with a buffer of length \<open>N\<close> whose number
  of lit entries lies in that range, every other entry being \<open>None\<close>.
\<close>

theorem effect_disco_gate_and_count:
  assumes speed: "0 < speed s"
  shows "(now - last_update s < 1 / speed s \<longrightarrow>
            effect_disco R s now led_count = Inr ([], False))
     \<and> (\<not> now - last_update s < 1 / speed s
          \<and> random_contract R \<and> 0 \<le> min_sparkle s \<and> 0 \<le> led_count
          \<and> min (min_sparkle s) led_count \<le> min (max_sparkle s) led_count \<longrightarrow>
          (\<exists>buffer. effect_disco R s now led_count = Inr (buffer, True)
             \<and> int (length buffer) = led_count
             \<and> min (min_sparkle s) led_count \<le> int (count_lit buffer)
             \<and> int (count_lit buffer) \<le> min (max_sparkle s) led_count))"
proof (intro conjI impI)
  assume "now - last_update s < 1 / speed s"
  with speed show "effect_disco R s now led_count = Inr ([], False)"
    by (simp add: effect_disco_def py_truediv_def)
next
  assume firing: "\<not> now - last_update s < 1 / speed s
          \<and> random_contract R \<and> 0 \<le> min_sparkle s \<and> 0 \<le> led_count
          \<and> min (min_sparkle s) led_count \<le> min (max_sparkle s) led_count"
  then have fire: "\<not> now - last_update s < 1 / speed s"
    and contract: "random_contract R"
    and sparkle: "0 \<le> min_sparkle s"
    and count: "0 \<le> led_count"
    and range: "min (min_sparkle s) led_count \<le> min (max_sparkle s) led_count"
    by simp_all
  define g0 where "g0 = random_seed R (py_int (now * 1000000))"
  define min_lit where "min_lit = min (min_sparkle s) led_count"
  define max_lit where "max_lit = min (max_sparkle s) led_count"
  obtain k g1 where draw: "random_randint R min_lit max_lit g0 = (k, g1)"
    by (cases "random_randint R min_lit max_lit g0")
  obtain sh g2 where shuf: "random_shuffle R (py_range led_count) g1 = (sh, g2)"
    by (cases "random_shuffle R (py_range led_count) g1")
  define buffer where
    "buffer = disco_colors R s (set (py_slice_to sh k)) (py_range led_count) g2"
  from range have le: "min_lit \<le> max_lit"
    by (simp add: min_lit_def max_lit_def)
  from contract le draw have k: "min_lit \<le> k" "k \<le> max_lit"
    unfolding random_contract_def by (metis fst_conv)+
  from contract shuf have perm: "mset sh = mset (py_range led_count)"
    unfolding random_contract_def by (metis fst_conv)
  from sparkle count k have k0: "0 \<le> k"
    by (simp add: min_lit_def)
  from k have kn: "k \<le> led_count"
    by (simp add: max_lit_def)
  have res: "effect_disco R s now led_count = Inr (buffer, True)"
    using speed fire le draw shuf
    by (simp add: effect_disco_def py_truediv_def py_randint_def Let_def buffer_def
          g0_def [symmetric] min_lit_def [symmetric] max_lit_def [symmetric])
  have len: "int (length buffer) = led_count"
    using count by (simp add: buffer_def disco_colors_length py_range_length)
  have cnt: "count_lit buffer = nat k"
    using lit_indices_count [OF k0 kn perm] by (simp add: buffer_def disco_colors_count)
  from res len cnt k k0
  show "\<exists>buffer. effect_disco R s now led_count = Inr (buffer, True)
             \<and> int (length buffer) = led_count
             \<and> min (min_sparkle s) led_count \<le> int (count_lit buffer)
             \<and> int (count_lit buffer) \<le> min (max_sparkle s) led_count"
    by (auto simp: min_lit_def max_lit_def)
qed

lemma sample_random_contract: "random_contract sample_random"
proof -
  have bound: "a \<le> a + g mod (b - a + 1) \<and> a + g mod (b - a + 1) \<le> b" if "a \<le> b" for a b g :: int
  proof -
    from that have pos: "0 < b - a + 1" by simp
    from pos_mod_sign [OF pos, of g] pos_mod_bound [OF pos, of g] show ?thesis by simp
  qed
  then show ?thesis
    by (simp add: random_contract_def sample_random_def)
qed

lemma bad_sparkle_timing:
  "speed (EffectState_default\<lparr>min_sparkle := 5, max_sparkle := 2\<rparr>) = 1
   \<and> last_update (EffectState_default\<lparr>min_sparkle := 5, max_sparkle := 2\<rparr>) = 0"
  by (simp add: EffectState_default_def)

theorem effect_disco_gate_and_count_witness:
  "(\<exists>buffer. effect_disco sample_random EffectState_default 5 4 = Inr (buffer, True)
      \<and> int (length buffer) = 4
      \<and> 1 \<le> int (count_lit buffer) \<and> int (count_lit buffer) \<le> 4)
   \<and> effect_disco sample_random (EffectState_default\<lparr>min_sparkle := 5, max_sparkle := 2\<rparr>)
        (1 / 2) (- 1) = Inr ([], False)"
  using effect_disco_gate_and_count [of EffectState_default 5 sample_random 4]
    effect_disco_gate_and_count
      [of "EffectState_default\<lparr>min_sparkle := 5, max_sparkle := 2\<rparr>" "1 / 2" sample_random "- 1"]
    sample_random_contract bad_sparkle_timing
  by (simp add: EffectState_default_def)

text \<open>
  C7 as stated fails: with \<open>speed = 1 > 0\<close>, \<open>min_sparkle = 5\<close> and
  \<open>max_sparkle = 2\<close> a firing call asks \<open>random.randint(5, 2)\<close>, which raises
  \<open>ValueError\<close>: no buffer is returned.
\<close>

theorem effect_disco_empty_range_counterexample:
  "0 < speed (EffectState_default\<lparr>min_sparkle := 5, max_sparkle := 2\<rparr>)
   \<and> \<not> 5 - last_update (EffectState_default\<lparr>min_sparkle := 5, max_sparkle := 2\<rparr>)
         < 1 / speed (EffectState_default\<lparr>min_sparkle := 5, max_sparkle := 2\<rparr>)
   \<and> effect_disco sample_random (EffectState_default\<lparr>min_sparkle := 5, max_sparkle := 2\<rparr>)
        5 10 = Inl ValueError"
  by (simp add: effect_disco_def EffectState_default_def py_truediv_def py_randint_def Let_def)


section \<open>Properties of the state detector\<close>

lemma detect_event_current:
  "current_event (snd (detect_event d st now)) = current_event d"
  by (simp add: detect_event_def Let_def split: option.splits)

lemma detect_event_listeners:
  "listeners (snd (detect_event d st now)) = listeners d"
  by (simp add: detect_event_def Let_def split: option.splits)

text \<open>
  With listeners that raise nothing but errors, the loop runs every listener and nothing
  propagates.
\<close>

lemma notify_isolated:
  "\<forall>callback \<in> set cbs. raises_only_Exception callback \<Longrightarrow>
   notify cbs e w = (None, foldl (\<lambda>w' callback. snd (callback e w')) w cbs)"
proof (induction cbs arbitrary: w)
  case Nil
  then show ?case by simp
next
  case (Cons cb cbs)
  from Cons.prems have cb: "raises_only_Exception cb"
    and rest: "\<forall>callback \<in> set cbs. raises_only_Exception callback"
    by simp_all
  obtain r w1 where call: "cb e w = (r, w1)"
    by (cases "cb e w")
  from cb call have ok: "r = None \<or> (\<exists>x. r = Some x \<and> is_Exception x)"
    unfolding raises_only_Exception_def
    by (metis fst_conv option.case_eq_if option.collapse)
  from ok call Cons.IH [OF rest, of w1] show ?case
    by auto
qed

lemma transition_state:
  "current_event (fst (snd (transition d e now w))) = e
   \<and> previous_event (fst (snd (transition d e now w))) = current_event d
   \<and> listeners (fst (snd (transition d e now w))) = listeners d"
  by (simp add: transition_def reset_timers_def Let_def split: prod.splits)

lemma transition_notify:
  "fst (transition d e now w) = fst (notify (listeners d) e w)
   \<and> snd (snd (transition d e now w)) = snd (notify (listeners d) e w)"
  by (simp add: transition_def reset_timers_def Let_def split: prod.splits)

lemma sample_listeners:
  "listeners (sample_detector x) = [listener_raise x ''first'', listener_log ''second'']
   \<and> current_event (sample_detector x) = IDLE"
  by (simp add: sample_detector_def add_listener_def StateDetector_init_def)

lemma sample_listeners_ok:
  "\<forall>callback \<in> set (listeners (sample_detector (Raised_Exception ''ValueError''))).
     raises_only_Exception callback"
  by (simp add: sample_listeners raises_only_Exception_def listener_raise_def listener_log_def)

subsection \<open>Listener isolation\<close>

text \<open>
  C6 (as amended). A transition always updates \<open>current_event\<close> and
  \<open>previous_event\<close>. When every listener that raises raises an error (an instance of
  \<open>Exception\<close>), nothing propagates out of the transition and every listener is invoked
  with the new event, in order, those after a raising one included: the world afterwards
  is the fold of all the calls.
\<close>

theorem transition_isolates_listeners:
  "current_event (fst (snd (transition d e now w))) = e
   \<and> previous_event (fst (snd (transition d e now w))) = current_event d
   \<and> ((\<forall>callback \<in> set (listeners d). raises_only_Exception callback) \<longrightarrow>
        fst (transition d e now w) = None
        \<and> snd (snd (transition d e now w))
            = foldl (\<lambda>w' callback. snd (callback e w')) w (listeners d))"
  using notify_isolated [of "listeners d" e w] transition_state [of d e now w]
    transition_notify [of d e now w]
  by simp

theorem transition_isolates_listeners_witness:
  "current_event (fst (snd (transition (sample_detector (Raised_Exception ''ValueError''))
       HEATING 1 []))) = HEATING
   \<and> previous_event (fst (snd (transition (sample_detector (Raised_Exception ''ValueError''))
       HEATING 1 []))) = IDLE
   \<and> fst (transition (sample_detector (Raised_Exception ''ValueError'')) HEATING 1 []) = None
   \<and> snd (snd (transition (sample_detector (Raised_Exception ''ValueError'')) HEATING 1 []))
       = [''first'', ''second'']"
  using transition_isolates_listeners
          [of "sample_detector (Raised_Exception ''ValueError'')" HEATING 1 "[]"]
        sample_listeners_ok
  by (simp add: sample_listeners listener_raise_def listener_log_def)

text \<open>
  C6 as stated fails: a first listener that raises \<open>KeyboardInterrupt\<close> is not caught
  by \<open>except Exception\<close>; the exception propagates out of the transition and the
  second listener is never invoked.
\<close>

theorem transition_propagates_counterexample:
  "fst (transition (sample_detector (Raised_BaseException ''KeyboardInterrupt'')) HEATING 1 [])
     = Some (Raised_BaseException ''KeyboardInterrupt'')
   \<and> snd (snd (transition (sample_detector (Raised_BaseException ''KeyboardInterrupt''))
        HEATING 1 [])) = [''first'']"
  by (simp add: transition_notify sample_listeners listener_raise_def listener_log_def)

subsection \<open>What update returns\<close>

lemma update_unchanged:
  "fst (detect_event d st now) = current_event d \<Longrightarrow>
   fst (update d st now w) = Returned None
   \<and> current_event (fst (snd (update d st now w))) = current_event d"
proof -
  assume same: "fst (detect_event d st now) = current_event d"
  obtain e d1 where det: "detect_event d st now = (e, d1)"
    by (cases "detect_event d st now")
  from det detect_event_current [of d st now] have "current_event d1 = current_event d"
    by simp
  with same det show ?thesis
    by (simp add: update_def)
qed

lemma update_changed:
  "fst (detect_event d st now) \<noteq> current_event d \<Longrightarrow>
   current_event (fst (snd (update d st now w))) = fst (detect_event d st now)
   \<and> fst (update d st now w)
       = (case fst (notify (listeners d) (fst (detect_event d st now)) w) of
            None \<Rightarrow> Returned (Some (fst (detect_event d st now)))
          | Some x \<Rightarrow> Raised x)"
proof -
  assume differs: "fst (detect_event d st now) \<noteq> current_event d"
  obtain e d1 where det: "detect_event d st now = (e, d1)"
    by (cases "detect_event d st now")
  from det detect_event_current [of d st now] detect_event_listeners [of d st now]
  have d1: "current_event d1 = current_event d" "listeners d1 = listeners d"
    by simp_all
  obtain r d2 w2 where tr: "transition d1 e now w = (r, d2, w2)"
    by (cases "transition d1 e now w")
  from tr transition_state [of d1 e now w] transition_notify [of d1 e now w] d1
  have d2: "current_event d2 = e" "r = fst (notify (listeners d) e w)"
    by simp_all
  from differs det d1 tr d2 show ?thesis
    by (simp add: update_def split: option.splits)
qed

lemma detect_cold_printing:
  "fst (detect_event (sample_detector x) (cold_printer ''ready'' ''printing'') 1) = PRINTING"
  by (simp add: detect_event_def cold_printer_def sample_listeners is_heating_def at_temp_def)

lemma detect_cold_standby:
  "fst (detect_event (sample_detector x) (cold_printer ''ready'' ''standby'') 1) = IDLE"
  by (simp add: detect_event_def cold_printer_def is_heating_def is_hot_def
        sample_detector_def add_listener_def StateDetector_init_def)

text \<open>
  C5. The listeners keep the contract of the listener interface: each returns, or fails with
  an error (an instance of \<open>Exception\<close>). Then \<open>update\<close> returns the newly detected
  event exactly when it differs from the current event, and \<open>current_event\<close> becomes
  that event; when the detected event equals the current one it returns \<open>None\<close> and
  leaves \<open>current_event\<close> unchanged.
\<close>

theorem update_reports_change:
  assumes "\<forall>callback \<in> set (listeners d). raises_only_Exception callback"
  shows "(fst (detect_event d st now) \<noteq> current_event d \<longrightarrow>
            fst (update d st now w) = Returned (Some (fst (detect_event d st now)))
            \<and> current_event (fst (snd (update d st now w))) = fst (detect_event d st now))
     \<and> (fst (detect_event d st now) = current_event d \<longrightarrow>
          fst (update d st now w) = Returned None
          \<and> current_event (fst (snd (update d st now w))) = current_event d)"
  using assms update_unchanged [of d st now w] update_changed [of d st now w]
    notify_isolated [of "listeners d" "fst (detect_event d st now)" w]
  by simp

theorem update_reports_change_witness:
  "fst (update (sample_detector (Raised_Exception ''ValueError''))
          (cold_printer ''ready'' ''printing'') 1 []) = Returned (Some PRINTING)
   \<and> current_event (fst (snd (update (sample_detector (Raised_Exception ''ValueError''))
          (cold_printer ''ready'' ''printing'') 1 []))) = PRINTING
   \<and> fst (update (sample_detector (Raised_Exception ''ValueError''))
          (cold_printer ''ready'' ''standby'') 1 []) = Returned None
   \<and> current_event (fst (snd (update (sample_detector (Raised_Exception ''ValueError''))
          (cold_printer ''ready'' ''standby'') 1 []))) = IDLE"
  using update_reports_change
          [OF sample_listeners_ok, of "cold_printer ''ready'' ''printing''" 1 "[]"]
        update_reports_change
          [OF sample_listeners_ok, of "cold_printer ''ready'' ''standby''" 1 "[]"]
  by (simp add: detect_cold_printing detect_cold_standby sample_listeners)

subsection \<open>No heater target\<close>

text \<open>
  C10 (as amended). With \<open>bed_target = 0\<close> and \<open>extruder_target = 0\<close>, \<open>at_temp\<close>
  holds for every tolerance and \<open>_detect_event\<close> never returns heating; when
  \<open>print_state\<close> is \<open>printing\<close> and the machine state is neither \<open>shutdown\<close> nor
  \<open>error\<close> it returns printing, and with one of those machine states it returns error.
\<close>

theorem at_temp_without_targets:
  assumes "bed_target st = 0" and "extruder_target st = 0"
  shows "at_temp st tolerance
     \<and> fst (detect_event d st now) \<noteq> HEATING
     \<and> (print_state' st = ''printing'' \<and> klipper_state st \<noteq> ''shutdown''
          \<and> klipper_state st \<noteq> ''error'' \<longrightarrow> fst (detect_event d st now) = PRINTING)
     \<and> (klipper_state st = ''shutdown'' \<or> klipper_state st = ''error''
          \<longrightarrow> fst (detect_event d st now) = ERROR)"
  using assms
  by (simp add: at_temp_def detect_event_def is_heating_def clearly_heating_def Let_def
        split: option.splits)

theorem at_temp_without_targets_witness:
  "at_temp (cold_printer ''ready'' ''printing'') 2
   \<and> fst (detect_event (sample_detector (Raised_Exception ''ValueError''))
            (cold_printer ''ready'' ''printing'') 1) = PRINTING"
  using at_temp_without_targets
          [of "cold_printer ''ready'' ''printing''" 2
              "sample_detector (Raised_Exception ''ValueError'')" 1]
  by (simp add: cold_printer_def)

text \<open>
  C10 as stated fails: printing with no heater target set, but with the machine state
  \<open>error\<close>, the decision tree returns error, not printing.
\<close>

theorem printing_error_priority_counterexample:
  "bed_target (cold_printer ''error'' ''printing'') = 0
   \<and> extruder_target (cold_printer ''error'' ''printing'') = 0
   \<and> print_state' (cold_printer ''error'' ''printing'') = ''printing''
   \<and> fst (detect_event (sample_detector (Raised_Exception ''ValueError''))
             (cold_printer ''error'' ''printing'') 1) = ERROR"
  by (simp add: cold_printer_def detect_event_def)


section \<open>Properties of update_from_status\<close>

text \<open>What the two guarded reads give on each kind of group value.\<close>

lemma read_item_cases:
  "read_item (PDict d) k = Inr (map_of d k)"
  "read_item (PList xs) k = (if PStr k \<in> set xs then Inl TypeError else Inr None)"
  "read_item (PStr t) k = (if is_substring k t then Inl TypeError else Inr None)"
  "read_item PNone k = Inl TypeError"
  "read_item (PBool b) k = Inl TypeError"
  "read_item (PInt i) k = Inl TypeError"
  "read_item (PFloat x) k = Inl TypeError"
  by (cases "map_of d k") (simp_all add: read_item_def)

lemma read_get_cases:
  "read_get (PDict d) k dflt = Inr (map_of d k)"
  "read_get (PList xs) k dflt = (if PStr k \<in> set xs then Inl AttributeError else Inr None)"
  "read_get (PStr t) k dflt = (if is_substring k t then Inl AttributeError else Inr None)"
  "read_get PNone k dflt = Inl TypeError"
  "read_get (PBool b) k dflt = Inl TypeError"
  "read_get (PInt i) k dflt = Inl TypeError"
  "read_get (PFloat x) k dflt = Inl TypeError"
  by (cases "map_of d k") (simp_all add: read_get_def)

text \<open>Each block runs to its end on a tolerated group and raises on any other.\<close>

lemma update_webhooks_tolerated:
  assumes "group_tolerated status ''webhooks''"
  shows "update_webhooks status s =
     Inr (s\<lparr>klipper_state := stored (klipper_state s) (sub_field status ''webhooks'' ''state'')\<rparr>)"
proof (cases "map_of status ''webhooks''")
  case None
  then show ?thesis
    by (simp add: update_webhooks_def sub_field_def stored_def)
next
  case (Some v)
  with assms show ?thesis
    by (cases v)
      (auto simp: update_webhooks_def group_tolerated_def is_mapping_def passed_over_def
         block_keys_def sub_field_def stored_def read_item_cases read_get_cases Let_def
         split: option.splits)
qed

lemma update_webhooks_refused:
  assumes "\<not> group_tolerated status ''webhooks''"
  shows "\<exists>e. update_webhooks status s = Inl e"
proof (cases "map_of status ''webhooks''")
  case None
  with assms show ?thesis
    by (simp add: group_tolerated_def)
next
  case (Some v)
  with assms show ?thesis
    by (cases v)
      (auto simp: update_webhooks_def group_tolerated_def is_mapping_def passed_over_def
         block_keys_def read_item_cases read_get_cases Let_def split: option.splits)
qed

lemma update_print_stats_tolerated:
  assumes "group_tolerated status ''print_stats''"
  shows "update_print_stats status s =
     Inr (s\<lparr>print_state' := stored (print_state' s) (sub_field status ''print_stats'' ''state''),
            filename := stored (filename s) (sub_field status ''print_stats'' ''filename'')\<rparr>)"
proof (cases "map_of status ''print_stats''")
  case None
  then show ?thesis
    by (simp add: update_print_stats_def sub_field_def stored_def)
next
  case (Some v)
  with assms show ?thesis
    by (cases v)
      (auto simp: update_print_stats_def group_tolerated_def is_mapping_def passed_over_def
         block_keys_def sub_field_def stored_def read_item_cases read_get_cases Let_def
         split: option.splits)
qed

lemma update_print_stats_refused:
  assumes "\<not> group_tolerated status ''print_stats''"
  shows "\<exists>e. update_print_stats status s = Inl e"
proof (cases "map_of status ''print_stats''")
  case None
  with assms show ?thesis
    by (simp add: group_tolerated_def)
next
  case (Some v)
  with assms show ?thesis
    by (cases v)
      (auto simp: update_print_stats_def group_tolerated_def is_mapping_def passed_over_def
         block_keys_def read_item_cases read_get_cases Let_def split: option.splits)
qed

lemma update_display_status_tolerated:
  assumes "group_tolerated status ''display_status''"
  shows "update_display_status status s =
     Inr (s\<lparr>progress := stored (progress s)
              (map_option py_or_zero (sub_field status ''display_status'' ''progress''))\<rparr>)"
proof (cases "map_of status ''display_status''")
  case None
  then show ?thesis
    by (simp add: update_display_status_def sub_field_def stored_def)
next
  case (Some v)
  with assms show ?thesis
    by (cases v)
      (auto simp: update_display_status_def group_tolerated_def is_mapping_def passed_over_def
         block_keys_def sub_field_def stored_def read_item_cases read_get_cases Let_def
         split: option.splits)
qed

lemma update_display_status_refused:
  assumes "\<not> group_tolerated status ''display_status''"
  shows "\<exists>e. update_display_status status s = Inl e"
proof (cases "map_of status ''display_status''")
  case None
  with assms show ?thesis
    by (simp add: group_tolerated_def)
next
  case (Some v)
  with assms show ?thesis
    by (cases v)
      (auto simp: update_display_status_def group_tolerated_def is_mapping_def passed_over_def
         block_keys_def read_item_cases read_get_cases Let_def split: option.splits)
qed

lemma update_heater_bed_tolerated:
  assumes "group_tolerated status ''heater_bed''"
  shows "update_heater_bed status s =
     Inr (s\<lparr>bed_temp := stored (bed_temp s)
              (map_option py_or_zero (sub_field status ''heater_bed'' ''temperature'')),
            bed_target := stored (bed_target s)
              (map_option py_or_zero (sub_field status ''heater_bed'' ''target''))\<rparr>)"
proof (cases "map_of status ''heater_bed''")
  case None
  then show ?thesis
    by (simp add: update_heater_bed_def sub_field_def stored_def)
next
  case (Some v)
  with assms show ?thesis
    by (cases v)
      (auto simp: update_heater_bed_def group_tolerated_def is_mapping_def passed_over_def
         block_keys_def sub_field_def stored_def read_item_cases read_get_cases Let_def
         split: option.splits)
qed

lemma update_heater_bed_refused:
  assumes "\<not> group_tolerated status ''heater_bed''"
  shows "\<exists>e. update_heater_bed status s = Inl e"
proof (cases "map_of status ''heater_bed''")
  case None
  with assms show ?thesis
    by (simp add: group_tolerated_def)
next
  case (Some v)
  with assms show ?thesis
    by (cases v)
      (auto simp: update_heater_bed_def group_tolerated_def is_mapping_def passed_over_def
         block_keys_def read_item_cases read_get_cases Let_def split: option.splits)
qed

lemma update_extruder_tolerated:
  assumes "group_tolerated status ''extruder''"
  shows "update_extruder status s =
     Inr (s\<lparr>extruder_temp := stored (extruder_temp s)
              (map_option py_or_zero (sub_field status ''extruder'' ''temperature'')),
            extruder_target := stored (extruder_target s)
              (map_option py_or_zero (sub_field status ''extruder'' ''target''))\<rparr>)"
proof (cases "map_of status ''extruder''")
  case None
  then show ?thesis
    by (simp add: update_extruder_def sub_field_def stored_def)
next
  case (Some v)
  with assms show ?thesis
    by (cases v)
      (auto simp: update_extruder_def group_tolerated_def is_mapping_def passed_over_def
         block_keys_def sub_field_def stored_def read_item_cases read_get_cases Let_def
         split: option.splits)
qed

lemma update_extruder_refused:
  assumes "\<not> group_tolerated status ''extruder''"
  shows "\<exists>e. update_extruder status s = Inl e"
proof (cases "map_of status ''extruder''")
  case None
  with assms show ?thesis
    by (simp add: group_tolerated_def)
next
  case (Some v)
  with assms show ?thesis
    by (cases v)
      (auto simp: update_extruder_def group_tolerated_def is_mapping_def passed_over_def
         block_keys_def read_item_cases read_get_cases Let_def split: option.splits)
qed

lemma update_idle_timeout_tolerated:
  assumes "group_tolerated status ''idle_timeout''"
  shows "update_idle_timeout status s =
     Inr (s\<lparr>idle_state := stored (idle_state s) (sub_field status ''idle_timeout'' ''state'')\<rparr>)"
proof (cases "map_of status ''idle_timeout''")
  case None
  then show ?thesis
    by (simp add: update_idle_timeout_def sub_field_def stored_def)
next
  case (Some v)
  with assms show ?thesis
    by (cases v)
      (auto simp: update_idle_timeout_def group_tolerated_def is_mapping_def passed_over_def
         block_keys_def sub_field_def stored_def read_item_cases read_get_cases Let_def
         split: option.splits)
qed

lemma update_idle_timeout_refused:
  assumes "\<not> group_tolerated status ''idle_timeout''"
  shows "\<exists>e. update_idle_timeout status s = Inl e"
proof (cases "map_of status ''idle_timeout''")
  case None
  with assms show ?thesis
    by (simp add: group_tolerated_def)
next
  case (Some v)
  with assms show ?thesis
    by (cases v)
      (auto simp: update_idle_timeout_def group_tolerated_def is_mapping_def passed_over_def
         block_keys_def read_item_cases read_get_cases Let_def split: option.splits)
qed

text \<open>The toolhead block also reads the position.\<close>

lemma update_toolhead_tolerated:
  assumes "group_tolerated status ''toolhead''" and "position_tolerated status"
  shows "update_toolhead status s =
     Inr (s\<lparr>position_x := stored (position_x s) (map_option py_or_zero (position_item status 0)),
            position_y := stored (position_y s) (map_option py_or_zero (position_item status 1)),
            position_z := stored (position_z s) (map_option py_or_zero (position_item status 2))\<rparr>)"
proof (cases "map_of status ''toolhead''")
  case None
  then show ?thesis
    by (simp add: update_toolhead_def position_item_def sub_field_def stored_def)
next
  case (Some v)
  show ?thesis
  proof (cases "\<exists>d. v = PDict d")
    case False
    with Some assms(1) show ?thesis
      by (cases v)
        (auto simp: update_toolhead_def group_tolerated_def is_mapping_def passed_over_def
           block_keys_def position_item_def sub_field_def stored_def read_item_cases)
  next
    case True
    then obtain d where d: "v = PDict d" by blast
    show ?thesis
    proof (cases "map_of d ''position''")
      case None
      with Some d show ?thesis
        by (simp add: update_toolhead_def position_item_def sub_field_def stored_def
              read_item_cases)
    next
      case pos: (Some pos)
      with Some d assms(2) show ?thesis
        by (cases pos)
          (auto simp: update_toolhead_def position_tolerated_def position_item_def
             sub_field_def stored_def read_item_cases)
    qed
  qed
qed

lemma update_toolhead_refused:
  assumes "\<not> (group_tolerated status ''toolhead'' \<and> position_tolerated status)"
  shows "\<exists>e. update_toolhead status s = Inl e"
proof (cases "map_of status ''toolhead''")
  case None
  with assms show ?thesis
    by (simp add: group_tolerated_def position_tolerated_def sub_field_def)
next
  case (Some v)
  show ?thesis
  proof (cases "\<exists>d. v = PDict d")
    case False
    with Some assms show ?thesis
      by (cases v)
        (auto simp: update_toolhead_def group_tolerated_def is_mapping_def passed_over_def
           block_keys_def position_tolerated_def sub_field_def read_item_cases)
  next
    case True
    then obtain d where d: "v = PDict d" by blast
    show ?thesis
    proof (cases "map_of d ''position''")
      case None
      with Some d assms show ?thesis
        by (simp add: group_tolerated_def is_mapping_def position_tolerated_def sub_field_def)
    next
      case pos: (Some pos)
      with Some d assms show ?thesis
        by (cases pos)
          (auto simp: update_toolhead_def group_tolerated_def is_mapping_def
             position_tolerated_def sub_field_def read_item_cases)
    qed
  qed
qed

text \<open>A block that always raises makes the whole run raise.\<close>

lemma run_blocks_refused:
  assumes "f \<in> set fs" and "\<And>s. \<exists>e. f s = Inl e"
  shows "\<exists>e s'. run_blocks fs s = Inl (e, s')"
  using assms(1)
proof (induction fs arbitrary: s)
  case Nil
  then show ?case by simp
next
  case (Cons g gs)
  show ?case
  proof (cases "g s")
    case (Inl e)
    then show ?thesis by simp
  next
    case (Inr s1)
    with assms(2) [of s] have "g \<noteq> f" by auto
    with Cons.prems have "f \<in> set gs" by simp
    from Cons.IH [OF this, of s1] Inr show ?thesis by simp
  qed
qed

lemma update_from_status_tolerated:
  assumes ok: "status_tolerated status"
  shows "update_from_status s status =
     Inr (s\<lparr>klipper_state := stored (klipper_state s) (sub_field status ''webhooks'' ''state''),
            print_state' := stored (print_state' s) (sub_field status ''print_stats'' ''state''),
            filename := stored (filename s) (sub_field status ''print_stats'' ''filename''),
            progress := stored (progress s)
              (map_option py_or_zero (sub_field status ''display_status'' ''progress'')),
            bed_temp := stored (bed_temp s)
              (map_option py_or_zero (sub_field status ''heater_bed'' ''temperature'')),
            bed_target := stored (bed_target s)
              (map_option py_or_zero (sub_field status ''heater_bed'' ''target'')),
            extruder_temp := stored (extruder_temp s)
              (map_option py_or_zero (sub_field status ''extruder'' ''temperature'')),
            extruder_target := stored (extruder_target s)
              (map_option py_or_zero (sub_field status ''extruder'' ''target'')),
            position_x := stored (position_x s) (map_option py_or_zero (position_item status 0)),
            position_y := stored (position_y s) (map_option py_or_zero (position_item status 1)),
            position_z := stored (position_z s) (map_option py_or_zero (position_item status 2)),
            idle_state := stored (idle_state s) (sub_field status ''idle_timeout'' ''state'')\<rparr>)"
proof -
  from ok have g:
    "group_tolerated status ''webhooks''" "group_tolerated status ''print_stats''"
    "group_tolerated status ''display_status''" "group_tolerated status ''heater_bed''"
    "group_tolerated status ''extruder''" "group_tolerated status ''toolhead''"
    "group_tolerated status ''idle_timeout''" "position_tolerated status"
    by (simp_all add: status_tolerated_def recognised_groups_def)
  show ?thesis
    unfolding update_from_status_def
    by (simp add: update_webhooks_tolerated [OF g(1)] update_print_stats_tolerated [OF g(2)]
          update_display_status_tolerated [OF g(3)] update_heater_bed_tolerated [OF g(4)]
          update_extruder_tolerated [OF g(5)] update_toolhead_tolerated [OF g(6) g(8)]
          update_idle_timeout_tolerated [OF g(7)])
qed

lemma update_from_status_refused:
  assumes bad: "\<not> status_tolerated status"
  shows "\<exists>e s'. update_from_status s status = Inl (e, s')"
proof -
  from bad consider
    (w) "\<not> group_tolerated status ''webhooks''"
    | (p) "\<not> group_tolerated status ''print_stats''"
    | (d) "\<not> group_tolerated status ''display_status''"
    | (h) "\<not> group_tolerated status ''heater_bed''"
    | (e) "\<not> group_tolerated status ''extruder''"
    | (t) "\<not> (group_tolerated status ''toolhead'' \<and> position_tolerated status)"
    | (i) "\<not> group_tolerated status ''idle_timeout''"
    by (auto simp: status_tolerated_def recognised_groups_def)
  then show ?thesis
  proof cases
    case w
    show ?thesis
      unfolding update_from_status_def
      by (rule run_blocks_refused [of "update_webhooks status"])
        (simp_all add: update_webhooks_refused [OF w])
  next
    case p
    show ?thesis
      unfolding update_from_status_def
      by (rule run_blocks_refused [of "update_print_stats status"])
        (simp_all add: update_print_stats_refused [OF p])
  next
    case d
    show ?thesis
      unfolding update_from_status_def
      by (rule run_blocks_refused [of "update_display_status status"])
        (simp_all add: update_display_status_refused [OF d])
  next
    case h
    show ?thesis
      unfolding update_from_status_def
      by (rule run_blocks_refused [of "update_heater_bed status"])
        (simp_all add: update_heater_bed_refused [OF h])
  next
    case e
    show ?thesis
      unfolding update_from_status_def
      by (rule run_blocks_refused [of "update_extruder status"])
        (simp_all add: update_extruder_refused [OF e])
  next
    case t
    show ?thesis
      unfolding update_from_status_def
      by (rule run_blocks_refused [of "update_toolhead status"])
        (simp_all add: update_toolhead_refused [OF t])
  next
    case i
    show ?thesis
      unfolding update_from_status_def
      by (rule run_blocks_refused [of "update_idle_timeout status"])
        (simp_all add: update_idle_timeout_refused [OF i])
  qed
qed

lemma unknown_group_ignored:
  assumes "k \<notin> set recognised_groups"
  shows "update_from_status s ((k, v) # status) = update_from_status s status"
proof -
  from assms have "update_webhooks ((k, v) # status) = update_webhooks status"
    "update_print_stats ((k, v) # status) = update_print_stats status"
    "update_display_status ((k, v) # status) = update_display_status status"
    "update_heater_bed ((k, v) # status) = update_heater_bed status"
    "update_extruder ((k, v) # status) = update_extruder status"
    "update_toolhead ((k, v) # status) = update_toolhead status"
    "update_idle_timeout ((k, v) # status) = update_idle_timeout status"
    by (auto simp: recognised_groups_def fun_eq_iff update_webhooks_def update_print_stats_def
          update_display_status_def update_heater_bed_def update_extruder_def
          update_toolhead_def update_idle_timeout_def)
  then show ?thesis
    by (simp add: update_from_status_def)
qed

text \<open>
  C4 (as amended). \<open>update_from_status\<close> returns without raising exactly on the
  snapshots it tolerates: those in which every recognised group is absent, a mapping, or a
  list or str in which none of its sub-keys occurs, and in which the toolhead position,
  where carried, is a list, a str or a mapping with fewer than three keys. On such a
  snapshot every field ends as \<open>stored\<close> says: with its prior value when its group or
  its sub-key is absent, else with the value carried, numeric fields through
  \<open>x or 0.0\<close>, so that a null becomes \<open>0.0\<close>. On any other snapshot it raises. On
  every snapshot, a group that is not one of the seven recognised ones is ignored.
\<close>

theorem update_from_status_merge:
  "(status_tolerated status \<longrightarrow>
      (\<exists>s'. update_from_status s status = Inr s'
        \<and> klipper_state s' = stored (klipper_state s) (sub_field status ''webhooks'' ''state'')
        \<and> print_state' s' = stored (print_state' s) (sub_field status ''print_stats'' ''state'')
        \<and> filename s' = stored (filename s) (sub_field status ''print_stats'' ''filename'')
        \<and> progress s' = stored (progress s)
              (map_option py_or_zero (sub_field status ''display_status'' ''progress''))
        \<and> bed_temp s' = stored (bed_temp s)
              (map_option py_or_zero (sub_field status ''heater_bed'' ''temperature''))
        \<and> bed_target s' = stored (bed_target s)
              (map_option py_or_zero (sub_field status ''heater_bed'' ''target''))
        \<and> extruder_temp s' = stored (extruder_temp s)
              (map_option py_or_zero (sub_field status ''extruder'' ''temperature''))
        \<and> extruder_target s' = stored (extruder_target s)
              (map_option py_or_zero (sub_field status ''extruder'' ''target''))
        \<and> position_x s' = stored (position_x s) (map_option py_or_zero (position_item status 0))
        \<and> position_y s' = stored (position_y s) (map_option py_or_zero (position_item status 1))
        \<and> position_z s' = stored (position_z s) (map_option py_or_zero (position_item status 2))
        \<and> idle_state s' = stored (idle_state s) (sub_field status ''idle_timeout'' ''state'')))
   \<and> (\<not> status_tolerated status \<longrightarrow> (\<exists>e s'. update_from_status s status = Inl (e, s')))
   \<and> stored old None = old
   \<and> stored old (map_option py_or_zero (Some PNone)) = PFloat 0
   \<and> (\<forall>k v. k \<notin> set recognised_groups \<longrightarrow>
         update_from_status s ((k, v) # status) = update_from_status s status)"
  using update_from_status_tolerated [of status s] update_from_status_refused [of status s]
    unknown_group_ignored [of _ s _ status]
  by (simp add: stored_def py_or_zero_def)

lemma sample_status_tolerated: "status_tolerated sample_status"
  by (simp add: status_tolerated_def group_tolerated_def position_tolerated_def
        sample_status_def recognised_groups_def sub_field_def is_mapping_def passed_over_def
        block_keys_def)

theorem update_from_status_merge_witness:
  "\<exists>s'. update_from_status (PrinterState_default\<lparr>bed_target := PFloat 50\<rparr>) sample_status
          = Inr s'
     \<and> klipper_state s' = PStr ''ready''
     \<and> bed_temp s' = PFloat 60
     \<and> bed_target s' = PFloat 0
     \<and> extruder_target s' = PFloat 0
     \<and> print_state' s' = PStr ''standby''"
  using update_from_status_merge
          [of sample_status "PrinterState_default\<lparr>bed_target := PFloat 50\<rparr>"]
        sample_status_tolerated
  by (auto simp: sample_status_def sub_field_def stored_def py_or_zero_def
        PrinterState_default_def)

text \<open>
  C4 as stated fails: a recognised group that is present with the value \<open>null\<close> is not
  ignored, \<open>"state" in None\<close> raises \<open>TypeError\<close>; and a toolhead group whose
  position is \<open>null\<close> raises \<open>TypeError\<close> at \<open>len(pos)\<close>.
\<close>

theorem update_from_status_null_group_counterexample:
  "update_from_status PrinterState_default [(''webhooks'', PNone)]
     = Inl (TypeError, PrinterState_default)
   \<and> update_from_status PrinterState_default [(''toolhead'', PDict [(''position'', PNone)])]
     = Inl (TypeError, PrinterState_default)"
  by (simp add: update_from_status_def update_webhooks_def update_print_stats_def
        update_display_status_def update_heater_bed_def update_extruder_def
        update_toolhead_def read_item_def)

section \<open>Properties of the pluggable detectors\<close>

lemma lower_names:
  "map lower_char ''printing'' = ''printing''"
  "map lower_char ''paused'' = ''paused''"
  "map lower_char ''error'' = ''error''"
  by (simp_all add: lower_char_def less_eq_char_def)

lemma heater_on_reads:
  "heater_on status heater = Inr b \<Longrightarrow>
   \<exists>t. py_get (dict_get status heater (PDict [])) ''target'' (PInt 0) = Inr t
       \<and> py_gt_zero t = Inr b"
  by (simp add: heater_on_def split: sum.splits)

lemma state_lower_reads:
  "state_lower status grp = Inr p \<Longrightarrow>
   \<exists>v. py_get (dict_get status grp (PDict [])) ''state'' (PStr []) = Inr v
       \<and> py_lower v = Inr p"
  by (simp add: state_lower_def split: sum.splits)

lemma idle_guard_True_cases:
  assumes "idle_guard status = Inr True"
  obtains (extruder) "heater_on status ''extruder'' = Inr True"
    | (bed) "heater_on status ''extruder'' = Inr False"
        "heater_on status ''heater_bed'' = Inr True"
    | (printing) p where "heater_on status ''extruder'' = Inr False"
        "heater_on status ''heater_bed'' = Inr False"
        "state_lower status ''print_stats'' = Inr p" "p \<in> set [''printing'', ''paused'']"
    | (error) p where "heater_on status ''extruder'' = Inr False"
        "heater_on status ''heater_bed'' = Inr False"
        "state_lower status ''print_stats'' = Inr p" "p \<notin> set [''printing'', ''paused'']"
        "state_lower status ''idle_timeout'' = Inr ''error''"
  using assms
  by (auto simp: idle_guard_def split: sum.splits if_splits)

lemma bored_guard_fires:
  assumes "idle_guard status = Inr True"
  shows "BoredDetector_detect status context = Inr False"
  using assms
proof (cases rule: idle_guard_True_cases)
  case extruder
  from heater_on_reads [OF extruder] show ?thesis
    by (auto simp: BoredDetector_detect_def Let_def split: option.splits)
next
  case bed
  from heater_on_reads [OF bed(1)] heater_on_reads [OF bed(2)] show ?thesis
    by (auto simp: BoredDetector_detect_def Let_def split: option.splits)
next
  case (printing p)
  from heater_on_reads [OF printing(1)] heater_on_reads [OF printing(2)]
    state_lower_reads [OF printing(3)] printing(4)
  show ?thesis
    by (auto simp: BoredDetector_detect_def Let_def split: option.splits)
next
  case (error p)
  from heater_on_reads [OF error(1)] heater_on_reads [OF error(2)]
    state_lower_reads [OF error(3)] error(4) state_lower_reads [OF error(5)]
  show ?thesis
    by (auto simp: BoredDetector_detect_def Let_def split: option.splits)
qed

lemma bored_fires_unguarded:
  assumes "BoredDetector_detect status context = Inr True"
  shows "idle_guard status = Inr False"
proof -
  from assms obtain te tb v w p i where
    "py_get (dict_get status ''extruder'' (PDict [])) ''target'' (PInt 0) = Inr te"
    "py_gt_zero te = Inr False"
    "py_get (dict_get status ''heater_bed'' (PDict [])) ''target'' (PInt 0) = Inr tb"
    "py_gt_zero tb = Inr False"
    "py_get (dict_get status ''print_stats'' (PDict [])) ''state'' (PStr []) = Inr v"
    "py_lower v = Inr p" "p \<notin> set [''printing'', ''paused'']"
    "py_get (dict_get status ''idle_timeout'' (PDict [])) ''state'' (PStr []) = Inr w"
    "py_lower w = Inr i" "i \<noteq> ''error''"
    by (auto simp: BoredDetector_detect_def Let_def split: option.splits sum.splits if_splits)
  then show ?thesis
    by (simp add: idle_guard_def heater_on_def state_lower_def)
qed

lemma sleep_guard_fires:
  assumes "idle_guard status = Inr True"
  shows "SleepDetector_detect status context = Inr False"
  using assms
proof (cases rule: idle_guard_True_cases)
  case extruder
  from heater_on_reads [OF extruder] show ?thesis
    by (auto simp: SleepDetector_detect_def Let_def split: option.splits)
next
  case bed
  from heater_on_reads [OF bed(1)] heater_on_reads [OF bed(2)] show ?thesis
    by (auto simp: SleepDetector_detect_def Let_def split: option.splits)
next
  case (printing p)
  from heater_on_reads [OF printing(1)] heater_on_reads [OF printing(2)]
    state_lower_reads [OF printing(3)] printing(4)
  show ?thesis
    by (auto simp: SleepDetector_detect_def Let_def split: option.splits)
next
  case (error p)
  from heater_on_reads [OF error(1)] heater_on_reads [OF error(2)]
    state_lower_reads [OF error(3)] error(4) state_lower_reads [OF error(5)]
  show ?thesis
    by (auto simp: SleepDetector_detect_def Let_def split: option.splits)
qed

lemma sleep_fires_unguarded:
  assumes "SleepDetector_detect status context = Inr True"
  shows "idle_guard status = Inr False"
proof -
  from assms obtain te tb v w p i where
    "py_get (dict_get status ''extruder'' (PDict [])) ''target'' (PInt 0) = Inr te"
    "py_gt_zero te = Inr False"
    "py_get (dict_get status ''heater_bed'' (PDict [])) ''target'' (PInt 0) = Inr tb"
    "py_gt_zero tb = Inr False"
    "py_get (dict_get status ''print_stats'' (PDict [])) ''state'' (PStr []) = Inr v"
    "py_lower v = Inr p" "p \<notin> set [''printing'', ''paused'']"
    "py_get (dict_get status ''idle_timeout'' (PDict [])) ''state'' (PStr []) = Inr w"
    "py_lower w = Inr i" "i \<noteq> ''error''"
    by (auto simp: SleepDetector_detect_def Let_def split: option.splits sum.splits if_splits)
  then show ?thesis
    by (simp add: idle_guard_def heater_on_def state_lower_def)
qed

lemma sub_field_SomeD:
  assumes "sub_field status grp k = Some v"
  shows "\<exists>d. map_of status grp = Some (PDict d) \<and> map_of d k = Some v"
proof (cases "map_of status grp")
  case None
  with assms show ?thesis by (simp add: sub_field_def)
next
  case (Some x)
  with assms show ?thesis
    by (cases x) (simp_all add: sub_field_def)
qed

lemma heater_target_set_on:
  assumes "heater_target_set status heater"
  shows "heater_on status heater = Inr True"
proof -
  from assms obtain v where v: "sub_field status heater ''target'' = Some v"
    by (cases "sub_field status heater ''target''") (simp_all add: heater_target_set_def)
  with assms obtain r where r: "py_num v = Some r" "0 < r"
    by (cases "py_num v") (simp_all add: heater_target_set_def)
  from sub_field_SomeD [OF v] obtain d where
    d: "map_of status heater = Some (PDict d)" "map_of d ''target'' = Some v"
    by blast
  from d r show ?thesis
    by (simp add: heater_on_def dict_get_def py_gt_zero_def)
qed

lemma sub_state_is_lower:
  assumes "sub_state_is status grp name"
  shows "state_lower status grp = Inr (map lower_char name)"
proof -
  from assms have "sub_field status grp ''state'' = Some (PStr name)"
    by (simp add: sub_state_is_def)
  from sub_field_SomeD [OF this] obtain d where
    "map_of status grp = Some (PDict d)" "map_of d ''state'' = Some (PStr name)"
    by blast
  then show ?thesis
    by (simp add: state_lower_def dict_get_def)
qed

lemma guard_trips_idle_guard:
  assumes "guard_trips status"
  shows "idle_guard status \<noteq> Inr False"
proof -
  from assms consider
    (a) "heater_target_set status ''extruder''"
    | (b) "heater_target_set status ''heater_bed''"
    | (c) "sub_state_is status ''print_stats'' ''printing''"
    | (d) "sub_state_is status ''print_stats'' ''paused''"
    | (e) "sub_state_is status ''idle_timeout'' ''error''"
    unfolding guard_trips_def by blast
  then show ?thesis
  proof cases
    case a
    from heater_target_set_on [OF a] show ?thesis
      by (simp add: idle_guard_def)
  next
    case b
    from heater_target_set_on [OF b] show ?thesis
      by (simp add: idle_guard_def split: sum.splits)
  next
    case c
    from sub_state_is_lower [OF c] have "state_lower status ''print_stats'' = Inr ''printing''"
      by (simp only: lower_names)
    then show ?thesis
      by (simp add: idle_guard_def split: sum.splits)
  next
    case d
    from sub_state_is_lower [OF d] have "state_lower status ''print_stats'' = Inr ''paused''"
      by (simp only: lower_names)
    then show ?thesis
      by (simp add: idle_guard_def split: sum.splits)
  next
    case e
    from sub_state_is_lower [OF e] have "state_lower status ''idle_timeout'' = Inr ''error''"
      by (simp only: lower_names)
    then show ?thesis
      by (simp add: idle_guard_def split: sum.splits)
  qed
qed

lemma well_typed_group_cases:
  assumes "well_typed_group status grp k ok"
  obtains (absent) "dict_get status grp (PDict []) = PDict []"
    | (no_key) d where "dict_get status grp (PDict []) = PDict d" "map_of d k = None"
    | (key) d x where "dict_get status grp (PDict []) = PDict d" "map_of d k = Some x" "ok x"
proof (cases "map_of status grp")
  case None
  then show ?thesis
    using absent by (simp add: dict_get_def)
next
  case (Some v)
  with assms obtain d where d: "v = PDict d"
    by (cases v) (simp_all add: well_typed_group_def)
  show ?thesis
  proof (cases "map_of d k")
    case None
    with Some d show ?thesis
      using no_key by (simp add: dict_get_def)
  next
    case (Some x)
    with \<open>map_of status grp = Some v\<close> d assms show ?thesis
      using key by (simp add: dict_get_def well_typed_group_def)
  qed
qed

lemma well_typed_heater_on:
  assumes "well_typed_group status heater ''target'' is_number"
  shows "\<exists>b. heater_on status heater = Inr b"
  using assms
proof (cases rule: well_typed_group_cases)
  case absent
  then show ?thesis
    by (auto simp: heater_on_def py_gt_zero_def)
next
  case (no_key d)
  then show ?thesis
    by (auto simp: heater_on_def py_gt_zero_def)
next
  case (key d x)
  from key(3) obtain r where "py_num x = Some r"
    by (cases "py_num x") (simp_all add: is_number_def)
  with key show ?thesis
    by (auto simp: heater_on_def py_gt_zero_def)
qed

lemma well_typed_state_lower:
  assumes "well_typed_group status grp ''state'' is_str"
  shows "\<exists>p. state_lower status grp = Inr p"
  using assms
proof (cases rule: well_typed_group_cases)
  case absent
  then show ?thesis
    by (simp add: state_lower_def)
next
  case (no_key d)
  then show ?thesis
    by (simp add: state_lower_def)
next
  case (key d x)
  from key(3) obtain t where "x = PStr t"
    by (cases x) (simp_all add: is_str_def)
  with key show ?thesis
    by (simp add: state_lower_def)
qed

lemma well_typed_idle_guard:
  assumes "detector_status_well_typed status"
  shows "\<exists>b. idle_guard status = Inr b"
proof -
  from assms have wt:
    "well_typed_group status ''extruder'' ''target'' is_number"
    "well_typed_group status ''heater_bed'' ''target'' is_number"
    "well_typed_group status ''print_stats'' ''state'' is_str"
    "well_typed_group status ''idle_timeout'' ''state'' is_str"
    by (simp_all add: detector_status_well_typed_def)
  from well_typed_heater_on [OF wt(1)] obtain a where a: "heater_on status ''extruder'' = Inr a"
    by blast
  from well_typed_heater_on [OF wt(2)] obtain b where b: "heater_on status ''heater_bed'' = Inr b"
    by blast
  from well_typed_state_lower [OF wt(3)] obtain p where
    p: "state_lower status ''print_stats'' = Inr p"
    by blast
  from well_typed_state_lower [OF wt(4)] obtain i where
    i: "state_lower status ''idle_timeout'' = Inr i"
    by blast
  from a b p i show ?thesis
    by (auto simp: idle_guard_def)
qed

text \<open>
  On an empty snapshot the timing context \<open>context_bored\<close> makes the bored detector
  fire: in the runs below it is the guard that decides.
\<close>

lemma bored_sticky_example:
  "BoredDetector_detect [] context_bored = Inr True"
  by (simp add: BoredDetector_detect_def context_bored_def dict_get_def py_gt_zero_def
        lower_char_def)

lemma bed_heating_trips:
  "guard_trips status_bed_heating \<and> detector_status_well_typed status_bed_heating"
  by (simp add: guard_trips_def heater_target_set_def sub_field_def status_bed_heating_def
        detector_status_well_typed_def well_typed_group_def is_number_def)

text \<open>
  C9 (as amended). When a heater target is set (extruder or bed target above 0), or the
  print sub-state is \<open>printing\<close> or \<open>paused\<close>, or the idle-timeout sub-state is
  \<open>error\<close>, neither \<open>BoredDetector.detect\<close> nor \<open>SleepDetector.detect\<close> returns
  true, whatever the timing context; on a snapshot that is well typed for the detectors
  both return false.
\<close>

theorem idle_guard_blocks_detectors:
  assumes "guard_trips status"
  shows "BoredDetector_detect status context \<noteq> Inr True
     \<and> SleepDetector_detect status context \<noteq> Inr True
     \<and> (detector_status_well_typed status \<longrightarrow>
          BoredDetector_detect status context = Inr False
          \<and> SleepDetector_detect status context = Inr False)"
proof -
  from assms have trips: "idle_guard status \<noteq> Inr False"
    by (rule guard_trips_idle_guard)
  have never: "BoredDetector_detect status context \<noteq> Inr True"
    "SleepDetector_detect status context \<noteq> Inr True"
    using trips bored_fires_unguarded sleep_fires_unguarded by blast+
  have "BoredDetector_detect status context = Inr False
        \<and> SleepDetector_detect status context = Inr False"
    if "detector_status_well_typed status"
  proof -
    from well_typed_idle_guard [OF that] trips have "idle_guard status = Inr True"
      by auto
    then show ?thesis
      by (simp add: bored_guard_fires sleep_guard_fires)
  qed
  with never show ?thesis by blast
qed

theorem idle_guard_blocks_detectors_witness:
  "BoredDetector_detect status_bed_heating context_bored = Inr False
   \<and> SleepDetector_detect status_bed_heating context_bored = Inr False"
  using idle_guard_blocks_detectors [of status_bed_heating context_bored] bed_heating_trips
  by simp

text \<open>
  C9 as stated fails: with a bed target of 60 set and a null extruder target, the test
  \<open>extruder.get('target', 0) > 0\<close> compares \<open>None\<close> with \<open>0\<close> and both
  detectors raise \<open>TypeError\<close> instead of returning false.
\<close>

theorem detectors_null_target_counterexample:
  "heater_target_set status_null_extruder ''heater_bed''
   \<and> guard_trips status_null_extruder
   \<and> BoredDetector_detect status_null_extruder context_bored = Inl TypeError
   \<and> SleepDetector_detect status_null_extruder context_bored = Inl TypeError"
  by (simp add: guard_trips_def heater_target_set_def sub_field_def status_null_extruder_def
        BoredDetector_detect_def SleepDetector_detect_def context_bored_def dict_get_def
        py_gt_zero_def)


end
